theory Spec2Isabelle
  imports Complex_Main "HOL-Library.Word"
begin

section \<open>Data model of the connection handler\<close>

text \<open>
  The development follows \<^verbatim>\<open>src/conn_handler.c\<close> of statsite. Bytes are \<^typ>\<open>char\<close>
  (8 bits), a buffer is a \<^typ>\<open>string\<close>.

  The handler computes with C \<^verbatim>\<open>double\<close>s. Their arithmetic rounds, overflows to
  infinity and knows NaN, and \<^verbatim>\<open>pow\<close> is a library function, so the operations are not
  fixed here: every function that computes with doubles takes them as a parameter, a
  record of the operations the source uses on a type \<open>'d\<close> of doubles. What is proved
  for all such records holds for the arithmetic of the machine.
\<close>

record 'd fp_ops =
  fp_of_int :: "int \<Rightarrow> 'd"
  fp_add :: "'d \<Rightarrow> 'd \<Rightarrow> 'd"
  fp_mul :: "'d \<Rightarrow> 'd \<Rightarrow> 'd"
  fp_div :: "'d \<Rightarrow> 'd \<Rightarrow> 'd"
  fp_pow10 :: "nat \<Rightarrow> 'd"
  fp_less :: "'d \<Rightarrow> 'd \<Rightarrow> bool"
  fp_le :: "'d \<Rightarrow> 'd \<Rightarrow> bool"
  fp_of_bits :: "nat \<Rightarrow> 'd"

text \<open>
  \<open>fp_of_int\<close> is the conversion of an \<^verbatim>\<open>int\<close> and the value of the literals
  \<^verbatim>\<open>0.0\<close>, \<^verbatim>\<open>1.0\<close>, \<^verbatim>\<open>10.0\<close> and \<^verbatim>\<open>-1.0\<close>; \<open>fp_pow10 n\<close> is the value of
  \<^verbatim>\<open>pow(10.0, digits)\<close> once the \<^verbatim>\<open>int digits\<close> has counted \<open>n\<close> digits;
  \<open>fp_less\<close> and \<open>fp_le\<close> are \<^verbatim>\<open><\<close> and \<^verbatim>\<open><=\<close>; \<open>fp_of_bits\<close> reads a 64-bit
  pattern as a double.

  One such record is exact arithmetic on the reals. It agrees with the machine wherever
  the machine rounds nothing, and serves to evaluate the functions on small inputs. The
  functions named as in the source are the parametrised ones at this record.
\<close>

type_synonym double = real

text \<open>
  The value of an IEEE-754 binary64 bit pattern, read as a real number. Patterns with
  the exponent field 2047 (infinities and NaNs) have no counterpart among the reals; the
  formula for normal numbers is applied to them as well, and \<open>-0.0\<close> is \<open>0\<close>.
\<close>

definition double_of_bits :: "nat \<Rightarrow> double" where
  "double_of_bits n =
     (let sign = (if (n div 2 ^ 63) mod 2 = 1 then - 1 else 1);
          e = (n div 2 ^ 52) mod 2 ^ 11;
          m = n mod 2 ^ 52
      in if e = 0 then sign * (real m / 2 ^ 1074)
         else sign * (real (2 ^ 52 + m) * 2 ^ e / 2 ^ 1075))"

definition exact :: "double fp_ops" where
  "exact =
     \<lparr>fp_of_int = real_of_int, fp_add = (+), fp_mul = (*), fp_div = (/),
      fp_pow10 = (\<lambda>n. 10 ^ n), fp_less = (<), fp_le = (\<le>), fp_of_bits = double_of_bits\<rparr>"

text \<open>The enumeration \<^verbatim>\<open>metric_type\<close> of \<^verbatim>\<open>metrics.h\<close>, as the handler uses it.\<close>

datatype metric_type = UNKNOWN | KEY_VAL | GAUGE | COUNTER | TIMER | SET | GAUGE_DELTA

text \<open>
  The fields of \<^verbatim>\<open>statsite_config\<close> that the handler reads. \<^verbatim>\<open>input_counter\<close> is a
  nullable C string.
\<close>

record statsite_config =
  timer_eps :: double
  set_precision :: nat
  binary_stream :: bool
  stream_cmd :: string
  input_counter :: "string option"

abbreviation NUL :: char where
  "NUL \<equiv> CHR 0x00"

abbreviation LF :: char where
  "LF \<equiv> CHR 0x0A"

text \<open>
  Reading \<^verbatim>\<open>*p\<close> where \<^verbatim>\<open>p\<close> points into a line: every slice of a line is followed by
  the NUL that replaced its terminator, so reading at the end of a slice yields NUL.
\<close>

definition deref :: "string \<Rightarrow> char" where
  "deref s = (case s of [] \<Rightarrow> NUL | c # _ \<Rightarrow> c)"

text \<open>A slice used as a C string ends at its first NUL.\<close>

definition c_str :: "string \<Rightarrow> string" where
  "c_str s = takeWhile (\<lambda>c. c \<noteq> NUL) s"

section \<open>The aggregator registry\<close>

text \<open>
  Modelled from the spec: the counter accumulator of \<^verbatim>\<open>counter.c\<close>, which is missing
  from the sources. The spec describes it as a running sum, sum of squares, count,
  minimum and maximum.
\<close>

record 'd counter =
  cnt_count :: nat
  cnt_sum :: 'd
  cnt_sum_sq :: 'd
  cnt_min :: 'd
  cnt_max :: 'd

text \<open>Modelled from the spec: a counter that has seen no sample (\<^verbatim>\<open>counter.c\<close> is missing).\<close>

definition init_counter_fp :: "'d fp_ops \<Rightarrow> 'd counter" where
  "init_counter_fp F =
     \<lparr>cnt_count = 0, cnt_sum = fp_of_int F 0, cnt_sum_sq = fp_of_int F 0,
      cnt_min = fp_of_int F 0, cnt_max = fp_of_int F 0\<rparr>"

text \<open>Modelled from the spec: one sample folded into the moments of a counter (\<^verbatim>\<open>counter.c\<close> is missing).\<close>

definition counter_add_sample_fp :: "'d fp_ops \<Rightarrow> 'd counter \<Rightarrow> 'd \<Rightarrow> 'd counter" where
  "counter_add_sample_fp F c v =
     \<lparr>cnt_count = cnt_count c + 1,
      cnt_sum = fp_add F (cnt_sum c) v,
      cnt_sum_sq = fp_add F (cnt_sum_sq c) (fp_mul F v v),
      cnt_min = (if cnt_count c = 0 \<or> fp_less F v (cnt_min c) then v else cnt_min c),
      cnt_max = (if cnt_count c = 0 \<or> fp_less F (cnt_max c) v then v else cnt_max c)\<rparr>"

text \<open>Modelled from the spec: the sum a counter reports (\<^verbatim>\<open>counter.c\<close> is missing).\<close>

definition counter_sum :: "'d counter \<Rightarrow> 'd" where
  "counter_sum c = cnt_sum c"

text \<open>Modelled from the spec: the count a counter reports (\<^verbatim>\<open>counter.c\<close> is missing).\<close>

definition counter_count :: "'d counter \<Rightarrow> nat" where
  "counter_count c = cnt_count c"

text \<open>
  Modelled from the spec: the accumulators of \<^verbatim>\<open>metrics.c\<close>, which is missing from
  the sources. The spec gives the timer sketch, the set estimator and the key/value store by
  contract only; they are kept as the values observed (a timer and a key/value entry as
  the list of samples, a set as the set of its members). A gauge is a single value.
\<close>

datatype 'd accumulator =
    CounterAcc "'d counter"
  | TimerAcc "'d list"
  | GaugeAcc 'd
  | SetAcc "string set"
  | KeyValAcc "'d list"

text \<open>Modelled from the spec: the registry, a mapping from names to accumulators (\<^verbatim>\<open>metrics.h\<close> is missing).\<close>

type_synonym 'd metrics = "string \<rightharpoonup> 'd accumulator"

text \<open>
  Modelled from the spec: \<^verbatim>\<open>init_metrics\<close> builds an empty registry. Its arguments
  (the timer epsilon, the quantiles, the histogram configuration and the set precision)
  parametrise the sketches, which the model does not represent.
\<close>

definition init_metrics :: "'d metrics" where
  "init_metrics = Map.empty"

text \<open>
  Modelled from the spec: one sample folded into the accumulator stored under a name.
  A \<^verbatim>\<open>Gauge\<close> sample replaces the value, a \<^verbatim>\<open>GaugeDelta\<close> sample adds to it (starting
  from 0 when the name is absent); a sample whose type conflicts with the accumulator
  already stored is ignored.
\<close>

fun acc_add_sample_fp ::
  "'d fp_ops \<Rightarrow> metric_type \<Rightarrow> 'd \<Rightarrow> 'd accumulator option \<Rightarrow> 'd accumulator option" where
  "acc_add_sample_fp F COUNTER v None =
     Some (CounterAcc (counter_add_sample_fp F (init_counter_fp F) v))"
| "acc_add_sample_fp F COUNTER v (Some (CounterAcc c)) =
     Some (CounterAcc (counter_add_sample_fp F c v))"
| "acc_add_sample_fp F TIMER v None = Some (TimerAcc [v])"
| "acc_add_sample_fp F TIMER v (Some (TimerAcc xs)) = Some (TimerAcc (xs @ [v]))"
| "acc_add_sample_fp F KEY_VAL v None = Some (KeyValAcc [v])"
| "acc_add_sample_fp F KEY_VAL v (Some (KeyValAcc xs)) = Some (KeyValAcc (xs @ [v]))"
| "acc_add_sample_fp F GAUGE v None = Some (GaugeAcc v)"
| "acc_add_sample_fp F GAUGE v (Some (GaugeAcc g)) = Some (GaugeAcc v)"
| "acc_add_sample_fp F GAUGE_DELTA v None = Some (GaugeAcc (fp_add F (fp_of_int F 0) v))"
| "acc_add_sample_fp F GAUGE_DELTA v (Some (GaugeAcc g)) = Some (GaugeAcc (fp_add F g v))"
| "acc_add_sample_fp F ty v old = old"

text \<open>
  Modelled from the spec: \<^verbatim>\<open>metrics_add_sample\<close> of \<^verbatim>\<open>metrics.c\<close>. The first
  argument after the arithmetic is the registry the pointer held in \<^verbatim>\<open>GLOBAL_METRICS\<close>
  denotes; on the null sentinel (\<open>None\<close>) the call does nothing.
\<close>

definition metrics_add_sample_fp ::
  "'d fp_ops \<Rightarrow> 'd metrics option \<Rightarrow> metric_type \<Rightarrow> string \<Rightarrow> 'd \<Rightarrow> 'd metrics option" where
  "metrics_add_sample_fp F gm ty name v =
     (case gm of
        None \<Rightarrow> None
      | Some m \<Rightarrow> Some (m(name := acc_add_sample_fp F ty v (m name))))"

abbreviation metrics_add_sample ::
  "double metrics option \<Rightarrow> metric_type \<Rightarrow> string \<Rightarrow> double \<Rightarrow> double metrics option" where
  "metrics_add_sample \<equiv> metrics_add_sample_fp exact"

text \<open>Modelled from the spec: \<^verbatim>\<open>metrics_set_update\<close> of \<^verbatim>\<open>metrics.c\<close> folds a member into the set stored under a name; on the null sentinel it does nothing.\<close>

definition metrics_set_update :: "'d metrics option \<Rightarrow> string \<Rightarrow> string \<Rightarrow> 'd metrics option" where
  "metrics_set_update gm name member =
     (case gm of
        None \<Rightarrow> None
      | Some m \<Rightarrow>
          (case m name of
             None \<Rightarrow> Some (m(name \<mapsto> SetAcc {member}))
           | Some (SetAcc s) \<Rightarrow> Some (m(name \<mapsto> SetAcc (insert member s)))
           | Some _ \<Rightarrow> Some m))"

section \<open>The text parser\<close>

subsection \<open>\<^verbatim>\<open>buffer_after_terminator\<close>\<close>

text \<open>\<^verbatim>\<open>memchr\<close>: the offset of the first occurrence of a byte, if any.\<close>

fun memchr :: "string \<Rightarrow> char \<Rightarrow> nat option" where
  "memchr [] t = None"
| "memchr (c # s) t = (if c = t then Some 0 else map_option Suc (memchr s t))"

text \<open>
  On success the function overwrites the terminator with NUL and yields the slice after
  it, \<^verbatim>\<open>after_len = buf_len - (term_addr - buf + 1)\<close> bytes long. The model returns both
  the bytes before the terminator (what \<^verbatim>\<open>buf\<close> now denotes as a C string, up to an
  earlier NUL) and the slice after it; \<open>None\<close> is the return value \<open>-1\<close>.
\<close>

definition buffer_after_terminator :: "string \<Rightarrow> char \<Rightarrow> (string \<times> string) option" where
  "buffer_after_terminator buf terminator =
     (case memchr buf terminator of
        None \<Rightarrow> None
      | Some i \<Rightarrow> Some (take i buf, drop (i + 1) buf))"

subsection \<open>\<^verbatim>\<open>str2double\<close>\<close>

definition is_digit :: "char \<Rightarrow> bool" where
  "is_digit c = (of_char CHR ''0'' \<le> (of_char c :: nat) \<and> (of_char c :: nat) \<le> of_char CHR ''9'')"

text \<open>
  The loop \<^verbatim>\<open>for (; *s >= '0' && *s <= '9'; s++) acc = (acc * 10.0) + (*s - '0')\<close>,
  counting the digits it consumes; it returns the accumulator, the count and the rest of
  the slice.
\<close>

fun scan_digits_fp :: "'d fp_ops \<Rightarrow> 'd \<Rightarrow> nat \<Rightarrow> string \<Rightarrow> 'd \<times> nat \<times> string" where
  "scan_digits_fp F acc n [] = (acc, n, [])"
| "scan_digits_fp F acc n (c # s) =
     (if is_digit c
      then scan_digits_fp F
             (fp_add F (fp_mul F acc (fp_of_int F 10))
                (fp_of_int F (int (of_char c) - int (of_char CHR ''0''))))
             (Suc n) s
      else (acc, n, c # s))"

text \<open>
  \<^verbatim>\<open>str2double\<close> returns the value and \<^verbatim>\<open>*end\<close>, here the unread rest of the slice.
\<close>

definition str2double_fp :: "'d fp_ops \<Rightarrow> string \<Rightarrow> 'd \<times> string" where
  "str2double_fp F s =
     (let (neg, s1) = (if deref s = CHR ''-'' then (True, tl s) else (False, s));
          (val, _, s2) = scan_digits_fp F (fp_of_int F 0) 0 s1;
          (val, s3) =
            (if deref s2 = CHR ''.''
             then (let (frac, digits, s3) = scan_digits_fp F (fp_of_int F 0) 0 (tl s2)
                   in (fp_add F val (fp_div F frac (fp_pow10 F digits)), s3))
             else (val, s2));
          val = (if neg then fp_mul F val (fp_of_int F (- 1)) else val)
      in (val, s3))"

abbreviation str2double :: "string \<Rightarrow> double \<times> string" where
  "str2double \<equiv> str2double_fp exact"

subsection \<open>One text command\<close>

datatype parse_error =
    Failed_parse_metric
  | Unknown_metric_type
  | Failed_value_conversion
  | Failed_sample_rate_conversion

text \<open>
  The \<^verbatim>\<open>switch (*type_str)\<close>: the metric type and the value slice, advanced past a
  leading \<open>+\<close> for \<open>g\<close>. The case \<open>+\<close> falls through into the case \<open>-\<close>.
  \<open>None\<close> is the \<^verbatim>\<open>default\<close> branch.
\<close>

definition convert_type :: "char \<Rightarrow> string \<Rightarrow> (metric_type \<times> string) option" where
  "convert_type t val_str =
     (if t = CHR ''c'' then Some (COUNTER, val_str)
      else if t = CHR ''m'' then Some (TIMER, val_str)
      else if t = CHR ''k'' then Some (KEY_VAL, val_str)
      else if t = CHR ''g'' then
        (if deref val_str = CHR ''+'' then Some (GAUGE_DELTA, tl val_str)
         else if deref val_str = CHR ''-'' then Some (GAUGE_DELTA, val_str)
         else Some (GAUGE, val_str))
      else if t = CHR ''s'' then Some (SET, val_str)
      else None)"

text \<open>\<^verbatim>\<open>if (GLOBAL_CONFIG->input_counter) metrics_add_sample(GLOBAL_METRICS, COUNTER, ..., 1)\<close>\<close>

definition incr_input_counter_fp ::
  "'d fp_ops \<Rightarrow> statsite_config \<Rightarrow> 'd metrics option \<Rightarrow> 'd metrics option" where
  "incr_input_counter_fp F cfg gm =
     (case input_counter cfg of
        None \<Rightarrow> gm
      | Some ic \<Rightarrow> metrics_add_sample_fp F gm COUNTER ic (fp_of_int F 1))"

abbreviation incr_input_counter ::
  "statsite_config \<Rightarrow> double metrics option \<Rightarrow> double metrics option" where
  "incr_input_counter \<equiv> incr_input_counter_fp exact"

text \<open>
  The body of the loop of \<^verbatim>\<open>handle_ascii_client_connect\<close> for one extracted line
  \<open>buf\<close>. The result is the error of the \<^verbatim>\<open>goto ERR_RET\<close> taken, if any, and the value of
  \<^verbatim>\<open>GLOBAL_METRICS\<close> afterwards. Pointer equality \<^verbatim>\<open>endptr == val_str\<close> is equality of the
  lengths of the two suffixes.
\<close>

definition handle_ascii_command_fp ::
  "'d fp_ops \<Rightarrow> statsite_config \<Rightarrow> 'd metrics option \<Rightarrow> string \<Rightarrow>
   parse_error option \<times> 'd metrics option" where
  "handle_ascii_command_fp F cfg gm buf =
     (case buffer_after_terminator buf CHR '':'' of
        None \<Rightarrow> (Some Failed_parse_metric, gm)
      | Some (key, val_str0) \<Rightarrow>
     (case buffer_after_terminator val_str0 CHR ''|'' of
        None \<Rightarrow> (Some Failed_parse_metric, gm)
      | Some (val_str1, type_str) \<Rightarrow>
     (case convert_type (deref type_str) val_str1 of
        None \<Rightarrow> (Some Unknown_metric_type, gm)
      | Some (type, val_str) \<Rightarrow>
          (let gm1 = incr_input_counter_fp F cfg gm in
           if type = SET then (None, metrics_set_update gm1 (c_str key) (c_str val_str))
           else
             (let (val, endptr) = str2double_fp F val_str in
              if length endptr = length val_str then (Some Failed_value_conversion, gm1)
              else if type = COUNTER then
                (case buffer_after_terminator type_str CHR ''@'' of
                   None \<Rightarrow> (None, metrics_add_sample_fp F gm1 type (c_str key) val)
                 | Some (_, sample_str) \<Rightarrow>
                     (let (sample_rate, endptr) = str2double_fp F sample_str in
                      if length endptr = length sample_str
                      then (Some Failed_sample_rate_conversion, gm1)
                      else
                        (let val = (if fp_less F (fp_of_int F 0) sample_rate \<and>
                                       fp_le F sample_rate (fp_of_int F 1)
                                    then fp_mul F val (fp_div F (fp_of_int F 1) sample_rate)
                                    else val)
                         in (None, metrics_add_sample_fp F gm1 type (c_str key) val))))
              else (None, metrics_add_sample_fp F gm1 type (c_str key) val))))))"

abbreviation handle_ascii_command ::
  "statsite_config \<Rightarrow> double metrics option \<Rightarrow> string \<Rightarrow>
   parse_error option \<times> double metrics option" where
  "handle_ascii_command \<equiv> handle_ascii_command_fp exact"

subsection \<open>The byte-stream reader\<close>

text \<open>
  Modelled from the spec: the reader primitives of \<^verbatim>\<open>networking.c\<close>, which is missing
  from the sources. A connection is the sequence of bytes received and not yet
  consumed. \<^verbatim>\<open>extract_to_terminator\<close> returns the next run of bytes ending at the
  terminator (exclusive) and consumes it together with the terminator, or signals
  ``not yet'' (\<open>None\<close>) and consumes nothing. \<^verbatim>\<open>peek_client_byte\<close> and
  \<^verbatim>\<open>peek_client_bytes\<close> return the next bytes without consuming;
  \<^verbatim>\<open>read_client_bytes\<close> consumes exactly the bytes asked for, or nothing when fewer are
  buffered.
\<close>

type_synonym conn_info = string

text \<open>
  Modelled from the spec: \<^verbatim>\<open>extract_to_terminator\<close> of \<^verbatim>\<open>networking.c\<close>, the line
  and the connection after it; \<open>None\<close> is the return value \<open>-1\<close>.
\<close>

definition extract_to_terminator :: "conn_info \<Rightarrow> char \<Rightarrow> (string \<times> conn_info) option" where
  "extract_to_terminator conn terminator =
     (case memchr conn terminator of
        None \<Rightarrow> None
      | Some i \<Rightarrow> Some (take i conn, drop (i + 1) conn))"

text \<open>Modelled from the spec: \<^verbatim>\<open>peek_client_byte\<close> of \<^verbatim>\<open>networking.c\<close>, the next byte, not consumed; \<open>None\<close> is the return value \<open>-1\<close>.\<close>

definition peek_client_byte :: "conn_info \<Rightarrow> char option" where
  "peek_client_byte conn = (case conn of [] \<Rightarrow> None | c # _ \<Rightarrow> Some c)"

text \<open>Modelled from the spec: \<^verbatim>\<open>peek_client_bytes\<close> of \<^verbatim>\<open>networking.c\<close>, the next \<open>n\<close> bytes, not consumed; \<open>None\<close> when fewer are buffered.\<close>

definition peek_client_bytes :: "conn_info \<Rightarrow> nat \<Rightarrow> string option" where
  "peek_client_bytes conn n = (if length conn < n then None else Some (take n conn))"

text \<open>Modelled from the spec: \<^verbatim>\<open>read_client_bytes\<close> of \<^verbatim>\<open>networking.c\<close>, the next \<open>n\<close> bytes, consumed; \<open>None\<close>, with nothing consumed, when fewer are buffered.\<close>

definition read_client_bytes :: "conn_info \<Rightarrow> nat \<Rightarrow> (string \<times> conn_info) option" where
  "read_client_bytes conn n =
     (if length conn < n then None else Some (take n conn, drop n conn))"

subsection \<open>\<^verbatim>\<open>handle_ascii_client_connect\<close>\<close>

text \<open>
  The handlers return the C return value, the connection and the registry
  \<^verbatim>\<open>GLOBAL_METRICS\<close> points at. \<open>0\<close> with unread bytes left means that no further command
  is available yet; \<open>-1\<close> is the error return, after which the caller closes the
  connection.
\<close>

function handle_ascii_client_connect_fp ::
  "'d fp_ops \<Rightarrow> statsite_config \<Rightarrow> conn_info \<times> 'd metrics option \<Rightarrow>
   int \<times> conn_info \<times> 'd metrics option" where
  "handle_ascii_client_connect_fp F cfg (conn, gm) =
     (case extract_to_terminator conn LF of
        None \<Rightarrow> (0, conn, gm)
      | Some (buf, conn') \<Rightarrow>
          (case handle_ascii_command_fp F cfg gm buf of
             (Some err, gm') \<Rightarrow> (- 1, conn', gm')
           | (None, gm') \<Rightarrow> handle_ascii_client_connect_fp F cfg (conn', gm')))"
  by pat_completeness auto
termination
proof (relation "measure (\<lambda>(F, cfg, conn, gm). length conn)")
  fix F :: "'d fp_ops" and cfg :: statsite_config and conn :: conn_info
    and gm :: "'d metrics option" and x2 buf conn'
  assume "extract_to_terminator conn LF = Some x2" and "(buf, conn') = x2"
  then show "((F, cfg, conn', gm'), F, cfg, conn, gm)
      \<in> measure (\<lambda>(F, cfg, conn, gm). length conn)" for gm'
    by (cases conn) (auto simp: extract_to_terminator_def split: option.splits)
qed simp

declare handle_ascii_client_connect_fp.simps [simp del]

abbreviation handle_ascii_client_connect ::
  "statsite_config \<Rightarrow> conn_info \<times> double metrics option \<Rightarrow>
   int \<times> conn_info \<times> double metrics option" where
  "handle_ascii_client_connect \<equiv> handle_ascii_client_connect_fp exact"

section \<open>The binary parser\<close>

text \<open>Little-endian reading of unsigned integers, as the x86 host of the source does.\<close>

fun le_nat :: "string \<Rightarrow> nat" where
  "le_nat [] = 0"
| "le_nat (c # cs) = of_char c + 256 * le_nat cs"

definition u16_at :: "string \<Rightarrow> nat \<Rightarrow> nat" where
  "u16_at cmd off = le_nat (take 2 (drop off cmd))"

text \<open>\<^verbatim>\<open>*(double*)(cmd + off)\<close>\<close>

definition double_at_fp :: "'d fp_ops \<Rightarrow> string \<Rightarrow> nat \<Rightarrow> 'd" where
  "double_at_fp F cmd off = fp_of_bits F (le_nat (take 8 (drop off cmd)))"

abbreviation double_at :: "string \<Rightarrow> nat \<Rightarrow> double" where
  "double_at \<equiv> double_at_fp exact"

abbreviation BINARY_MAGIC_BYTE :: char where
  "BINARY_MAGIC_BYTE \<equiv> CHR 0xAA"

abbreviation MAX_BINARY_HEADER_SIZE :: nat where
  "MAX_BINARY_HEADER_SIZE \<equiv> 12"

abbreviation MIN_BINARY_HEADER_SIZE :: nat where
  "MIN_BINARY_HEADER_SIZE \<equiv> 6"

text \<open>
  The \<^verbatim>\<open>switch (cmd[1])\<close>: \<open>SET\<close> stands for the special case that calls
  \<^verbatim>\<open>handle_binary_set\<close>, \<open>UNKNOWN\<close> for the \<^verbatim>\<open>default\<close> branch.
\<close>

definition bin_type :: "char \<Rightarrow> metric_type" where
  "bin_type c =
     (if c = CHR 0x01 then KEY_VAL
      else if c = CHR 0x02 then COUNTER
      else if c = CHR 0x03 then TIMER
      else if c = CHR 0x05 then GAUGE
      else if c = CHR 0x06 then GAUGE_DELTA
      else if c = CHR 0x04 then SET
      else UNKNOWN)"

text \<open>
  Modelled from the spec: the memory behind a command that \<^verbatim>\<open>read_client_bytes\<close> of
  \<^verbatim>\<open>networking.c\<close> has handed out. The parsers work in place on the read buffer, so
  behind the command \<open>cmd\<close> lie the bytes of the connection that are still unread,
  \<open>rest\<close>. A string argument that the binary parser passes on is the C string at a
  pointer into the command: one whose terminator was checked ends inside the command,
  one that starts at the end of the command (a declared length of 0) runs on into the
  unread bytes. What lies behind the buffered bytes is not represented: the string ends
  there at the latest.
\<close>

definition c_str_at :: "string \<Rightarrow> string \<Rightarrow> nat \<Rightarrow> string" where
  "c_str_at cmd rest off = c_str (drop off (cmd @ rest))"

text \<open>
  \<^verbatim>\<open>handle_binary_set\<close>: \<open>0\<close> on success, \<open>-1\<close> on error, \<open>-2\<close> if data is missing.
  The terminator checks read \<^verbatim>\<open>key[header[1] - 1]\<close> and \<^verbatim>\<open>key[val_bytes - 1]\<close>, which
  lie inside the command even for a zero length: they are then bytes of the header.
\<close>

definition handle_binary_set_fp ::
  "'d fp_ops \<Rightarrow> statsite_config \<Rightarrow> conn_info \<Rightarrow> 'd metrics option \<Rightarrow> string \<Rightarrow>
   int \<times> conn_info \<times> 'd metrics option" where
  "handle_binary_set_fp F cfg conn gm header =
     (let val_bytes = u16_at header 2 + u16_at header 4 in
      case read_client_bytes conn (MIN_BINARY_HEADER_SIZE + val_bytes) of
        None \<Rightarrow> (- 2, conn, gm)
      | Some (header, conn') \<Rightarrow>
          if header ! (MIN_BINARY_HEADER_SIZE + u16_at header 2 - 1) \<noteq> NUL then (- 1, conn', gm)
          else if header ! (MIN_BINARY_HEADER_SIZE + val_bytes - 1) \<noteq> NUL then (- 1, conn', gm)
          else
            (let gm1 = incr_input_counter_fp F cfg gm;
                 gm2 = metrics_set_update gm1
                         (c_str_at header conn' MIN_BINARY_HEADER_SIZE)
                         (c_str_at header conn' (MIN_BINARY_HEADER_SIZE + u16_at header 2))
             in (0, conn', gm2)))"

abbreviation handle_binary_set ::
  "statsite_config \<Rightarrow> conn_info \<Rightarrow> double metrics option \<Rightarrow> string \<Rightarrow>
   int \<times> conn_info \<times> double metrics option" where
  "handle_binary_set \<equiv> handle_binary_set_fp exact"

text \<open>
  The terminator check reads \<^verbatim>\<open>key[key_len - 1]\<close>, the last byte of the command; for
  \<^verbatim>\<open>key_len = 0\<close> that is \<^verbatim>\<open>cmd[11]\<close>, the last byte of the value.
\<close>

function handle_binary_client_connect_fp ::
  "'d fp_ops \<Rightarrow> statsite_config \<Rightarrow> conn_info \<times> 'd metrics option \<Rightarrow>
   int \<times> conn_info \<times> 'd metrics option" where
  "handle_binary_client_connect_fp F cfg (conn, gm) =
     (case peek_client_bytes conn MIN_BINARY_HEADER_SIZE of
        None \<Rightarrow> (0, conn, gm)
      | Some cmd \<Rightarrow>
          if cmd ! 0 \<noteq> BINARY_MAGIC_BYTE then (- 1, conn, gm)
          else
            (let type = bin_type (cmd ! 1) in
             if type = SET then
               (case handle_binary_set_fp F cfg conn gm cmd of
                  (r, conn', gm') \<Rightarrow>
                    if r = - 1 then (- 1, conn', gm')
                    else if r = - 2 then (0, conn', gm')
                    else handle_binary_client_connect_fp F cfg (conn', gm'))
             else if type = UNKNOWN then (- 1, conn, gm)
             else
               (let key_len = u16_at cmd 2 in
                case read_client_bytes conn (MAX_BINARY_HEADER_SIZE + key_len) of
                  None \<Rightarrow> (0, conn, gm)
                | Some (cmd, conn') \<Rightarrow>
                    if cmd ! (MAX_BINARY_HEADER_SIZE + key_len - 1) \<noteq> NUL then (- 1, conn', gm)
                    else
                      (let gm1 = incr_input_counter_fp F cfg gm;
                           gm2 = metrics_add_sample_fp F gm1 type
                                   (c_str_at cmd conn' MAX_BINARY_HEADER_SIZE)
                                   (double_at_fp F cmd 4)
                       in handle_binary_client_connect_fp F cfg (conn', gm2)))))"
  by pat_completeness auto
termination
  by (relation "measure (\<lambda>(F, cfg, conn, gm). length conn)")
     (auto simp: handle_binary_set_fp_def read_client_bytes_def peek_client_bytes_def Let_def
           split: option.splits if_splits)

declare handle_binary_client_connect_fp.simps [simp del]

abbreviation handle_binary_client_connect ::
  "statsite_config \<Rightarrow> conn_info \<times> double metrics option \<Rightarrow>
   int \<times> conn_info \<times> double metrics option" where
  "handle_binary_client_connect \<equiv> handle_binary_client_connect_fp exact"

section \<open>The connection driver\<close>

definition handle_client_connect_fp ::
  "'d fp_ops \<Rightarrow> statsite_config \<Rightarrow> conn_info \<times> 'd metrics option \<Rightarrow>
   int \<times> conn_info \<times> 'd metrics option" where
  "handle_client_connect_fp F cfg h =
     (case peek_client_byte (fst h) of
        None \<Rightarrow> (0, fst h, snd h)
      | Some magic \<Rightarrow>
          if magic = BINARY_MAGIC_BYTE then handle_binary_client_connect_fp F cfg h
          else handle_ascii_client_connect_fp F cfg h)"

abbreviation handle_client_connect ::
  "statsite_config \<Rightarrow> conn_info \<times> double metrics option \<Rightarrow>
   int \<times> conn_info \<times> double metrics option" where
  "handle_client_connect \<equiv> handle_client_connect_fp exact"

section \<open>The flush controller\<close>

text \<open>
  The registries live in a store of heap objects; \<^verbatim>\<open>GLOBAL_METRICS\<close> and the argument of
  a flush thread are pointers into it (\<open>None\<close> is \<^verbatim>\<open>NULL\<close>). \<^verbatim>\<open>malloc\<close> hands out the
  next unused address and never fails. A thread is recorded with the pointer it was
  started on and with whether the starting call waited for it (\<^verbatim>\<open>pthread_join\<close>) or
  detached it. The flush controller computes nothing with the values of a registry; the
  registries of the store hold them in exact arithmetic.
\<close>

record worker =
  thread_arg :: "nat option"
  joined :: bool

record daemon =
  heap :: "nat \<Rightarrow> double metrics"
  brk :: nat
  GLOBAL_METRICS :: "nat option"
  GLOBAL_CONFIG :: statsite_config
  threads :: "worker list"

definition init_conn_handler :: "statsite_config \<Rightarrow> daemon" where
  "init_conn_handler config =
     \<lparr>heap = (\<lambda>p. Map.empty)(0 := init_metrics), brk = 1,
      GLOBAL_METRICS = Some 0, GLOBAL_CONFIG = config, threads = []\<rparr>"

definition flush_interval_trigger :: "daemon \<Rightarrow> daemon" where
  "flush_interval_trigger d =
     (let m = brk d;
          d = d\<lparr>brk := Suc m, heap := (heap d)(m := init_metrics)\<rparr>;
          old = GLOBAL_METRICS d;
          d = d\<lparr>GLOBAL_METRICS := Some m\<rparr>
      in d\<lparr>threads := threads d @ [\<lparr>thread_arg = old, joined = False\<rparr>]\<rparr>)"

definition final_flush :: "daemon \<Rightarrow> daemon" where
  "final_flush d =
     (let old = GLOBAL_METRICS d;
          d = d\<lparr>GLOBAL_METRICS := None\<rparr>
      in d\<lparr>threads := threads d @ [\<lparr>thread_arg = old, joined = True\<rparr>]\<rparr>)"

text \<open>
  The registry a flush thread streams when it runs in state \<open>d\<close>: the object its
  argument points at.
\<close>

definition flushed :: "daemon \<Rightarrow> worker \<Rightarrow> double metrics option" where
  "flushed d w = (case thread_arg w of None \<Rightarrow> None | Some p \<Rightarrow> Some (heap d p))"

text \<open>
  The handlers reach the registry through \<^verbatim>\<open>GLOBAL_METRICS\<close> at every call. Between two
  calls of the flush controller the pointer does not change, so one invocation of the
  driver reads the object the pointer denotes and writes it back to the same address.
\<close>

definition the_metrics :: "daemon \<Rightarrow> double metrics option" where
  "the_metrics d = (case GLOBAL_METRICS d of None \<Rightarrow> None | Some p \<Rightarrow> Some (heap d p))"

definition store_metrics :: "daemon \<Rightarrow> double metrics option \<Rightarrow> daemon" where
  "store_metrics d gm =
     (case GLOBAL_METRICS d of
        None \<Rightarrow> d
      | Some p \<Rightarrow> (case gm of None \<Rightarrow> d | Some m \<Rightarrow> d\<lparr>heap := (heap d)(p := m)\<rparr>))"

definition on_client_data :: "daemon \<Rightarrow> conn_info \<Rightarrow> int \<times> conn_info \<times> daemon" where
  "on_client_data d conn =
     (case handle_client_connect (GLOBAL_CONFIG d) (conn, the_metrics d) of
        (r, conn', gm) \<Rightarrow> (r, conn', store_metrics d gm))"

text \<open>
  A run of the daemon: the networking layer reports data on some connection, the flush
  timer fires, or the daemon terminates and flushes for the last time.
\<close>

datatype event = Data conn_info | Rotate | Final

fun step :: "daemon \<Rightarrow> event \<Rightarrow> daemon" where
  "step d (Data conn) = snd (snd (on_client_data d conn))"
| "step d Rotate = flush_interval_trigger d"
| "step d Final = final_flush d"

fun run :: "daemon \<Rightarrow> event list \<Rightarrow> daemon" where
  "run d [] = d"
| "run d (ev # evs) = run (step d ev) evs"

text \<open>
  The epochs of a run as the spec describes them: the samples of the data delivered
  before a rotation go to the registry retired by that rotation, the samples delivered
  after it to a fresh registry. The result is the list of retired registries and the
  current one; after the final flush there is no current registry.
\<close>

definition ingest :: "statsite_config \<Rightarrow> conn_info \<Rightarrow> double metrics option \<Rightarrow> double metrics option" where
  "ingest cfg conn gm = snd (snd (handle_client_connect cfg (conn, gm)))"

fun epochs ::
  "statsite_config \<Rightarrow> double metrics option \<Rightarrow> event list \<Rightarrow> double metrics option list \<times> double metrics option" where
  "epochs cfg cur [] = ([], cur)"
| "epochs cfg cur (Data conn # evs) = epochs cfg (ingest cfg conn cur) evs"
| "epochs cfg cur (Rotate # evs) =
     (case epochs cfg (Some init_metrics) evs of (rs, cur') \<Rightarrow> (cur # rs, cur'))"
| "epochs cfg cur (Final # evs) =
     (case epochs cfg None evs of (rs, cur') \<Rightarrow> (cur # rs, cur'))"

section \<open>The binary serializer\<close>

text \<open>
  \<^verbatim>\<open>struct binary_out_prefix\<close> is packed, so \<^verbatim>\<open>fwrite\<close> of the struct writes the fields
  back to back, each in the little-endian byte order of the host. The \<^verbatim>\<open>double\<close> is
  written as its object representation and is carried here as its 64-bit pattern.
\<close>

fun le_bytes :: "nat \<Rightarrow> nat \<Rightarrow> string" where
  "le_bytes 0 x = []"
| "le_bytes (Suc n) x = char_of (x mod 256) # le_bytes n (x div 256)"

definition strlen :: "string \<Rightarrow> nat" where
  "strlen s = length (c_str s)"

text \<open>
  \<^verbatim>\<open>fwrite(ptr, size, 1, pipe)\<close> on a pipe that accepts every byte: the number of items
  written is 1, or 0 when the size is 0. The memory at \<open>ptr\<close> is given as a byte list.
\<close>

definition fwrite :: "string \<Rightarrow> nat \<Rightarrow> string \<Rightarrow> nat \<times> string" where
  "fwrite mem sz pipe = (if sz = 0 then (0, pipe) else (1, pipe @ take sz mem))"

text \<open>
  The argument \<open>name\<close> is the memory at the pointer; as a C string it ends at its first
  NUL, and the terminating NUL follows it.
\<close>

definition stream_bin_writer ::
  "string \<Rightarrow> 64 word \<Rightarrow> char \<Rightarrow> char \<Rightarrow> 64 word \<Rightarrow> string \<Rightarrow> int \<times> string" where
  "stream_bin_writer pipe timestamp type val_type val name =
     (let key_len = (word_of_nat (strlen name + 1) :: 16 word);
          out = le_bytes 8 (unat timestamp) @ [type] @ [val_type]
                @ le_bytes 2 (unat key_len) @ le_bytes 8 (unat val)
      in case fwrite out 20 pipe of
           (n, pipe) \<Rightarrow>
             if n = 0 then (1, pipe)
             else (case fwrite (c_str name @ [NUL]) (unat key_len) pipe of
                     (n, pipe) \<Rightarrow> if n = 0 then (1, pipe) else (0, pipe)))"

text \<open>
  The inverse parser of the binary output format, as the spec lays the record out:
  \<^verbatim>\<open>timestamp:u64 | type:u8 | value_type:u8 | key_len:u16 | value:f64\<close>, then
  \<^verbatim>\<open>key_len\<close> bytes of key. It returns the fields and the bytes after the record.
\<close>

record binary_out =
  out_timestamp :: "64 word"
  out_type :: char
  out_value_type :: char
  out_key_len :: nat
  out_val :: "64 word"
  out_key :: string

definition read_binary_out :: "string \<Rightarrow> (binary_out \<times> string) option" where
  "read_binary_out bs =
     (if length bs < 20 then None
      else
        (let key_len = le_nat (take 2 (drop 10 bs)) in
         if length bs < 20 + key_len then None
         else Some (\<lparr>out_timestamp = word_of_nat (le_nat (take 8 bs)),
                     out_type = bs ! 8,
                     out_value_type = bs ! 9,
                     out_key_len = key_len,
                     out_val = word_of_nat (le_nat (take 8 (drop 12 bs))),
                     out_key = take key_len (drop 20 bs)\<rparr>,
                    drop (20 + key_len) bs)))"

section \<open>Notions used to state the properties\<close>

definition example_config :: statsite_config where
  "example_config =
     \<lparr>timer_eps = 1 / 100, set_precision = 12, binary_stream = False,
      stream_cmd = ''cat'', input_counter = None\<rparr>"

text \<open>
  A slice is numeric when \<^verbatim>\<open>str2double\<close> moves the end pointer. Which bytes
  \<^verbatim>\<open>str2double\<close> reads does not depend on the arithmetic (lemma \<open>numeric_fp\<close>).
\<close>

definition numeric :: "string \<Rightarrow> bool" where
  "numeric s = (length (snd (str2double s)) \<noteq> length s)"

text \<open>
  The spec's value of a counter sample: \<open>v / r\<close> for a rate in \<open>(0, 1]\<close>, and \<open>v\<close>
  when the rate is absent or out of range.
\<close>

definition scaled :: "double \<Rightarrow> double option \<Rightarrow> double" where
  "scaled v rate = (case rate of None \<Rightarrow> v | Some r \<Rightarrow> if 0 < r \<and> r \<le> 1 then v / r else v)"

text \<open>
  A text counter sample is given by the text of its value and, optionally, of its sample
  rate; \<open>counter_line\<close> is its line on the wire, without the newline.
\<close>

definition counter_line :: "string \<Rightarrow> string \<times> string option \<Rightarrow> string" where
  "counter_line name s =
     name @ '':'' @ fst s @ ''|c'' @ (case snd s of None \<Rightarrow> [] | Some r \<Rightarrow> CHR ''@'' # r)"

definition counter_sample_ok :: "string \<times> string option \<Rightarrow> bool" where
  "counter_sample_ok s =
     (CHR ''|'' \<notin> set (fst s) \<and> LF \<notin> set (fst s) \<and> numeric (fst s) \<and>
      (case snd s of None \<Rightarrow> True | Some r \<Rightarrow> LF \<notin> set r \<and> numeric r))"

text \<open>
  The value the text parser ingests for such a sample, in the arithmetic of the handler:
  the value read, multiplied by \<open>1 / rate\<close> when a rate is given and lies in \<open>(0, 1]\<close>.
\<close>

definition sample_value_fp :: "'d fp_ops \<Rightarrow> string \<times> string option \<Rightarrow> 'd" where
  "sample_value_fp F s =
     (case snd s of
        None \<Rightarrow> fst (str2double_fp F (fst s))
      | Some r \<Rightarrow>
          if fp_less F (fp_of_int F 0) (fst (str2double_fp F r)) \<and>
             fp_le F (fst (str2double_fp F r)) (fp_of_int F 1)
          then fp_mul F (fst (str2double_fp F (fst s)))
                 (fp_div F (fp_of_int F 1) (fst (str2double_fp F r)))
          else fst (str2double_fp F (fst s)))"

text \<open>
  What the serializers are handed for a counter: its sum, which the text serializer
  prints in the format \<^verbatim>\<open>%s|%f|%lld\<close> between the name and the time stamp, and
  its count, which the binary serializer writes besides the sum. The rendering of a
  double by \<^verbatim>\<open>%f\<close> is not represented.
\<close>

definition reported :: "'d metrics option \<Rightarrow> string \<Rightarrow> ('d \<times> nat) option" where
  "reported gm name =
     (case gm of
        None \<Rightarrow> None
      | Some m \<Rightarrow>
          (case m name of
             Some (CounterAcc c) \<Rightarrow> Some (counter_sum c, counter_count c)
           | _ \<Rightarrow> None))"

text \<open>One accepted counter record: the input counter, then the sample.\<close>

definition add_counter_sample_fp ::
  "'d fp_ops \<Rightarrow> statsite_config \<Rightarrow> string \<Rightarrow> 'd \<Rightarrow> 'd metrics option \<Rightarrow> 'd metrics option" where
  "add_counter_sample_fp F cfg name v gm =
     metrics_add_sample_fp F (incr_input_counter_fp F cfg gm) COUNTER name v"

text \<open>
  The sum of a counter that has seen the values \<open>vs\<close> in this order: each is added
  to the running sum, which starts at \<open>0.0\<close>.
\<close>

definition running_sum :: "'d fp_ops \<Rightarrow> 'd list \<Rightarrow> 'd" where
  "running_sum F vs = fold (\<lambda>v acc. fp_add F acc v) vs (fp_of_int F 0)"

text \<open>The value the serializer reports for a gauge.\<close>

definition gauge_value :: "'d metrics option \<Rightarrow> string \<Rightarrow> 'd option" where
  "gauge_value gm name =
     (case gm of
        None \<Rightarrow> None
      | Some m \<Rightarrow> (case m name of Some (GaugeAcc g) \<Rightarrow> Some g | _ \<Rightarrow> None))"

text \<open>A configuration with the input counter set.\<close>

definition counting_config :: statsite_config where
  "counting_config = example_config\<lparr>input_counter := Some ''in''\<rparr>"

text \<open>
  Binary commands: a counter sample \<open>b = 1.0\<close>, the same with a key that is not
  terminated, and the gauge sample \<open>g = 42.0\<close> of the spec's scenario S3
  (\<^verbatim>\<open>0xAA 0x05 0x02 0x00 <f64:42.0> "g\0"\<close>).
\<close>

definition counter_b_one :: string where
  "counter_b_one =
     [CHR 0xAA, CHR 0x02, CHR 0x02, CHR 0x00,
      CHR 0x00, CHR 0x00, CHR 0x00, CHR 0x00, CHR 0x00, CHR 0x00, CHR 0xF0, CHR 0x3F,
      CHR ''b'', CHR 0x00]"

definition counter_b_unterminated :: string where
  "counter_b_unterminated =
     [CHR 0xAA, CHR 0x02, CHR 0x02, CHR 0x00,
      CHR 0x00, CHR 0x00, CHR 0x00, CHR 0x00, CHR 0x00, CHR 0x00, CHR 0xF0, CHR 0x3F,
      CHR ''b'', CHR ''x'']"

definition gauge_g_42 :: string where
  "gauge_g_42 =
     [CHR 0xAA, CHR 0x05, CHR 0x02, CHR 0x00,
      CHR 0x00, CHR 0x00, CHR 0x00, CHR 0x00, CHR 0x00, CHR 0x00, CHR 0x45, CHR 0x40,
      CHR ''g'', CHR 0x00]"

text \<open>
  Binary counter commands that declare a key of length 0: one with the value \<open>0.0\<close>,
  whose last byte is 0, and one with the value \<open>1.0\<close>, whose last byte is \<open>0x3F\<close>.
\<close>

definition counter_no_key_zero :: string where
  "counter_no_key_zero =
     [CHR 0xAA, CHR 0x02, CHR 0x00, CHR 0x00,
      CHR 0x00, CHR 0x00, CHR 0x00, CHR 0x00, CHR 0x00, CHR 0x00, CHR 0x00, CHR 0x00]"

definition counter_no_key_one :: string where
  "counter_no_key_one =
     [CHR 0xAA, CHR 0x02, CHR 0x00, CHR 0x00,
      CHR 0x00, CHR 0x00, CHR 0x00, CHR 0x00, CHR 0x00, CHR 0x00, CHR 0xF0, CHR 0x3F]"

text \<open>
  The pointers of a reachable state: everything allocated lies below the break, and no
  flush thread holds the pointer that is current.
\<close>

definition inv :: "daemon \<Rightarrow> bool" where
  "inv d \<longleftrightarrow>
     (\<forall>p. GLOBAL_METRICS d = Some p \<longrightarrow> p < brk d) \<and>
     (\<forall>w \<in> set (threads d). \<forall>p. thread_arg w = Some p \<longrightarrow>
        p < brk d \<and> GLOBAL_METRICS d \<noteq> Some p)"

section \<open>Exact arithmetic\<close>

lemma exact_simps [simp]:
  "fp_of_int exact = real_of_int" "fp_add exact = (+)" "fp_mul exact = (*)"
  "fp_div exact = (/)" "fp_pow10 exact = (\<lambda>n. 10 ^ n)" "fp_less exact = (<)"
  "fp_le exact = (\<le>)" "fp_of_bits exact = double_of_bits"
  by (simp_all add: exact_def)

section \<open>The text parser: auxiliary facts\<close>

lemma memchr_notin: "t \<notin> set s \<Longrightarrow> memchr s t = None"
  by (induction s) auto

lemma memchr_first: "t \<notin> set a \<Longrightarrow> memchr (a @ t # b) t = Some (length a)"
  by (induction a) auto

lemma buffer_after_terminator_first:
  "t \<notin> set a \<Longrightarrow> buffer_after_terminator (a @ t # b) t = Some (a, b)"
  by (simp add: buffer_after_terminator_def memchr_first)

lemma buffer_after_terminator_notin:
  "t \<notin> set s \<Longrightarrow> buffer_after_terminator s t = None"
  by (simp add: buffer_after_terminator_def memchr_notin)

lemma extract_to_terminator_first:
  "t \<notin> set a \<Longrightarrow> extract_to_terminator (a @ t # b) t = Some (a, b)"
  by (simp add: extract_to_terminator_def memchr_first)

lemma extract_to_terminator_notin:
  "t \<notin> set s \<Longrightarrow> extract_to_terminator s t = None"
  by (simp add: extract_to_terminator_def memchr_notin)

text \<open>Which value slices \<^verbatim>\<open>str2double\<close> accepts: it is the first byte that decides.\<close>

lemma scan_digits_length: "length (snd (snd (scan_digits_fp F acc n s))) \<le> length s"
  by (induction F acc n s rule: scan_digits_fp.induct) (auto intro: le_SucI)

lemma scan_digits_stuck:
  "\<not> is_digit (deref s) \<Longrightarrow> scan_digits_fp F acc n s = (acc, n, s)"
  by (cases s) (simp_all add: deref_def)

lemma scan_digits_moves:
  "is_digit (deref s) \<Longrightarrow> length (snd (snd (scan_digits_fp F acc n s))) < length s"
proof (cases s)
  case Nil
  assume "is_digit (deref s)"
  with Nil show ?thesis by (simp add: deref_def is_digit_def)
next
  case (Cons c t)
  assume "is_digit (deref s)"
  with Cons scan_digits_length [of F _ "Suc n" t] show ?thesis
    by (simp add: deref_def less_Suc_eq_le)
qed

lemma str2double_rest:
  "snd (str2double_fp F s) =
     (let s1 = (if deref s = CHR ''-'' then tl s else s);
          s2 = snd (snd (scan_digits_fp F (fp_of_int F 0) 0 s1))
      in if deref s2 = CHR ''.'' then snd (snd (scan_digits_fp F (fp_of_int F 0) 0 (tl s2))) else s2)"
  by (simp add: str2double_fp_def Let_def split: prod.splits)

lemma str2double_moves:
  "length (snd (str2double_fp F s)) \<noteq> length s \<longleftrightarrow>
     deref s = CHR ''-'' \<or> is_digit (deref s) \<or> deref s = CHR ''.''"
proof -
  define s1 where "s1 = (if deref s = CHR ''-'' then tl s else s)"
  define s2 where "s2 = snd (snd (scan_digits_fp F (fp_of_int F 0) 0 s1))"
  define s3 where "s3 = (if deref s2 = CHR ''.''
    then snd (snd (scan_digits_fp F (fp_of_int F 0) 0 (tl s2))) else s2)"
  have r: "snd (str2double_fp F s) = s3"
    by (simp add: str2double_rest s1_def s2_def s3_def Let_def)
  have l1: "length s1 \<le> length s" by (simp add: s1_def)
  have l2: "length s2 \<le> length s1" unfolding s2_def by (rule scan_digits_length)
  have l3: "length s3 \<le> length s2"
    using scan_digits_length [of F "fp_of_int F 0" 0 "tl s2"] by (auto simp: s3_def)
  show ?thesis
  proof (cases "deref s = CHR ''-''")
    case True
    then have "s \<noteq> []" by (auto simp: deref_def)
    then have "length s1 < length s" using True by (simp add: s1_def)
    with l2 l3 True show ?thesis by (simp add: r)
  next
    case minus: False
    then have s1: "s1 = s" by (simp add: s1_def)
    show ?thesis
    proof (cases "is_digit (deref s)")
      case True
      then have "length s2 < length s"
        unfolding s2_def s1 by (rule scan_digits_moves)
      with l3 True show ?thesis by (simp add: r)
    next
      case digit: False
      then have s2: "s2 = s" by (simp add: s2_def s1 scan_digits_stuck)
      show ?thesis
      proof (cases "deref s = CHR ''.''")
        case True
        then have "s \<noteq> []" by (auto simp: deref_def)
        then have "length (tl s) < length s" by simp
        with scan_digits_length [of F "fp_of_int F 0" 0 "tl s"] True show ?thesis
          by (simp add: r s3_def s2)
      next
        case False
        with minus digit show ?thesis by (simp add: r s3_def s2)
      qed
    qed
  qed
qed

lemma numeric_iff:
  "numeric s \<longleftrightarrow> deref s = CHR ''-'' \<or> is_digit (deref s) \<or> deref s = CHR ''.''"
  unfolding numeric_def by (rule str2double_moves)

lemma numeric_fp: "length (snd (str2double_fp F s)) \<noteq> length s \<longleftrightarrow> numeric s"
  by (simp only: numeric_iff str2double_moves)

lemma numeric_moves [simp]:
  "numeric s \<Longrightarrow> (length (snd (str2double_fp F s)) = length s) = False"
  using numeric_fp [of F s] by simp

text \<open>The value and sample-rate stage of a command, after the type switch.\<close>

lemma handle_ascii_command_fields:
  assumes "CHR '':'' \<notin> set name" and "CHR ''|'' \<notin> set v"
  shows "handle_ascii_command_fp F cfg gm (name @ CHR '':'' # v @ CHR ''|'' # tail) =
     (case convert_type (deref tail) v of
        None \<Rightarrow> (Some Unknown_metric_type, gm)
      | Some (type, val_str) \<Rightarrow>
          (let gm1 = incr_input_counter_fp F cfg gm in
           if type = SET then (None, metrics_set_update gm1 (c_str name) (c_str val_str))
           else if length (snd (str2double_fp F val_str)) = length val_str
             then (Some Failed_value_conversion, gm1)
           else if type = COUNTER then
             (case buffer_after_terminator tail CHR ''@'' of
                None \<Rightarrow>
                  (None, metrics_add_sample_fp F gm1 type (c_str name)
                           (fst (str2double_fp F val_str)))
              | Some (_, sample_str) \<Rightarrow>
                  if length (snd (str2double_fp F sample_str)) = length sample_str
                  then (Some Failed_sample_rate_conversion, gm1)
                  else (None, metrics_add_sample_fp F gm1 type (c_str name)
                          (if fp_less F (fp_of_int F 0) (fst (str2double_fp F sample_str)) \<and>
                              fp_le F (fst (str2double_fp F sample_str)) (fp_of_int F 1)
                           then fp_mul F (fst (str2double_fp F val_str))
                                  (fp_div F (fp_of_int F 1) (fst (str2double_fp F sample_str)))
                           else fst (str2double_fp F val_str))))
           else (None, metrics_add_sample_fp F gm1 type (c_str name)
                         (fst (str2double_fp F val_str)))))"
  using assms
  by (simp add: handle_ascii_command_fp_def buffer_after_terminator_first Let_def
           split: option.splits prod.splits)

lemma counter_line_command:
  assumes "CHR '':'' \<notin> set name" and "counter_sample_ok s"
  shows "handle_ascii_command_fp F cfg gm (counter_line name s) =
           (None, add_counter_sample_fp F cfg (c_str name) (sample_value_fp F s) gm)"
proof (cases "snd s")
  case None
  have "counter_line name s = name @ CHR '':'' # fst s @ CHR ''|'' # ''c''"
    by (simp add: counter_line_def None)
  with assms None show ?thesis
    by (simp add: handle_ascii_command_fields counter_sample_ok_def convert_type_def
          deref_def buffer_after_terminator_def sample_value_fp_def add_counter_sample_fp_def)
next
  case (Some r)
  have "counter_line name s = name @ CHR '':'' # fst s @ CHR ''|'' # (''c'' @ CHR ''@'' # r)"
    by (simp add: counter_line_def Some)
  with assms Some show ?thesis
    by (simp add: handle_ascii_command_fields counter_sample_ok_def convert_type_def
          deref_def buffer_after_terminator_def sample_value_fp_def add_counter_sample_fp_def)
qed

lemma counter_line_no_LF:
  "LF \<notin> set name \<Longrightarrow> counter_sample_ok s \<Longrightarrow> LF \<notin> set (counter_line name s)"
  by (auto simp: counter_line_def counter_sample_ok_def split: option.splits)

lemma ascii_step:
  assumes "LF \<notin> set line"
  shows "handle_ascii_client_connect_fp F cfg (line @ LF # rest, gm) =
     (case handle_ascii_command_fp F cfg gm line of
        (Some err, gm') \<Rightarrow> (- 1, rest, gm')
      | (None, gm') \<Rightarrow> handle_ascii_client_connect_fp F cfg (rest, gm'))"
  by (subst handle_ascii_client_connect_fp.simps)
     (simp add: extract_to_terminator_first assms)

lemma ascii_no_line:
  "LF \<notin> set conn \<Longrightarrow> handle_ascii_client_connect_fp F cfg (conn, gm) = (0, conn, gm)"
  by (subst handle_ascii_client_connect_fp.simps) (simp add: extract_to_terminator_notin)

lemma counter_lines_loop:
  assumes "CHR '':'' \<notin> set name" and "LF \<notin> set name"
    and "\<forall>s \<in> set samples. counter_sample_ok s"
  shows "handle_ascii_client_connect_fp F cfg
           (concat (map (\<lambda>s. counter_line name s @ [LF]) samples), gm) =
         (0, [], fold (\<lambda>s. add_counter_sample_fp F cfg (c_str name) (sample_value_fp F s))
                   samples gm)"
  using assms(3)
proof (induction samples arbitrary: gm)
  case Nil
  show ?case by (simp add: ascii_no_line)
next
  case (Cons s samples)
  have "LF \<notin> set (counter_line name s)"
    using Cons.prems assms(2) by (simp add: counter_line_no_LF)
  then show ?case
    using Cons assms(1)
    by (simp add: ascii_step counter_line_command)
qed

text \<open>
  The entry of a name after a run of counter records: the registry applies the samples
  to the entry one after another, and a record for the name of the input counter adds
  the sample \<open>1\<close> before its own.
\<close>

lemma add_counter_sample_entry:
  "\<exists>m'. add_counter_sample_fp F cfg name v (Some m) = Some m' \<and>
     m' name =
       (if input_counter cfg = Some name
        then acc_add_sample_fp F COUNTER v (acc_add_sample_fp F COUNTER (fp_of_int F 1) (m name))
        else acc_add_sample_fp F COUNTER v (m name))"
  by (cases "input_counter cfg")
     (auto simp: add_counter_sample_fp_def incr_input_counter_fp_def metrics_add_sample_fp_def)

lemma fold_counter_samples_entry:
  "\<exists>m'. fold (\<lambda>s. add_counter_sample_fp F cfg name (f s)) samples (Some m) = Some m' \<and>
     m' name =
       fold (acc_add_sample_fp F COUNTER)
         (if input_counter cfg = Some name
          then concat (map (\<lambda>s. [fp_of_int F 1, f s]) samples) else map f samples)
         (m name)"
proof (induction samples arbitrary: m)
  case Nil
  show ?case by simp
next
  case (Cons s samples)
  obtain m1 where m1: "add_counter_sample_fp F cfg name (f s) (Some m) = Some m1"
    and e1: "m1 name =
       (if input_counter cfg = Some name
        then acc_add_sample_fp F COUNTER (f s)
               (acc_add_sample_fp F COUNTER (fp_of_int F 1) (m name))
        else acc_add_sample_fp F COUNTER (f s) (m name))"
    using add_counter_sample_entry [of F cfg name "f s" m] by blast
  from Cons [of m1] show ?case
    by (cases "input_counter cfg = Some name") (simp_all add: m1 e1)
qed

lemma fold_counter_entry:
  "fold (acc_add_sample_fp F COUNTER) vs (Some (CounterAcc c)) =
     Some (CounterAcc c') \<Longrightarrow>
   cnt_sum c' = fold (\<lambda>v acc. fp_add F acc v) vs (cnt_sum c) \<and>
   cnt_count c' = cnt_count c + length vs"
proof (induction vs arbitrary: c)
  case Nil
  then show ?case by simp
next
  case (Cons v vs)
  from Cons.IH [of "counter_add_sample_fp F c v"] Cons.prems show ?case
    by (simp add: counter_add_sample_fp_def)
qed

lemma fold_counter_entry_Some:
  "\<exists>c'. fold (acc_add_sample_fp F COUNTER) vs (Some (CounterAcc c)) = Some (CounterAcc c')"
  by (induction vs arbitrary: c) simp_all

lemma fold_counter_entry_fresh:
  assumes "vs \<noteq> []"
  shows "\<exists>c'. fold (acc_add_sample_fp F COUNTER) vs None = Some (CounterAcc c') \<and>
     cnt_sum c' = running_sum F vs \<and> cnt_count c' = length vs"
proof -
  obtain v rest where vs: "vs = v # rest"
    using assms by (cases vs) auto
  let ?c = "counter_add_sample_fp F (init_counter_fp F) v"
  obtain c' where c': "fold (acc_add_sample_fp F COUNTER) rest (Some (CounterAcc ?c)) =
      Some (CounterAcc c')"
    using fold_counter_entry_Some by blast
  from fold_counter_entry [OF c'] c' show ?thesis
    by (simp add: vs running_sum_def counter_add_sample_fp_def init_counter_fp_def)
qed

lemma metrics_add_sample_None_iff [simp]:
  "metrics_add_sample_fp F gm ty name v = None \<longleftrightarrow> gm = None"
  by (simp add: metrics_add_sample_fp_def split: option.splits)

lemma metrics_set_update_None_iff [simp]:
  "metrics_set_update gm name member = None \<longleftrightarrow> gm = None"
  by (simp add: metrics_set_update_def split: option.splits accumulator.splits)

lemma incr_input_counter_None_iff [simp]:
  "incr_input_counter_fp F cfg gm = None \<longleftrightarrow> gm = None"
  by (simp add: incr_input_counter_fp_def split: option.splits)

lemma handle_ascii_command_None_iff:
  "snd (handle_ascii_command_fp F cfg gm buf) = None \<longleftrightarrow> gm = None"
  by (simp add: handle_ascii_command_fp_def Let_def split: option.splits prod.splits)

lemma handle_ascii_client_connect_None_iff:
  "snd (snd (handle_ascii_client_connect_fp F cfg h)) = None \<longleftrightarrow> snd h = None"
proof (induction F cfg h rule: handle_ascii_client_connect_fp.induct)
  case (1 F cfg conn gm)
  show ?case
  proof (cases "extract_to_terminator conn LF")
    case None
    then show ?thesis by (subst handle_ascii_client_connect_fp.simps) simp
  next
    case (Some x)
    obtain buf conn' where x: "x = (buf, conn')" by (cases x)
    obtain e gm' where c: "handle_ascii_command_fp F cfg gm buf = (e, gm')"
      by (cases "handle_ascii_command_fp F cfg gm buf")
    have g: "gm' = None \<longleftrightarrow> gm = None"
      using handle_ascii_command_None_iff [of F cfg gm buf] by (simp add: c)
    show ?thesis
    proof (cases e)
      case None
      with "1.IH" [OF Some x [symmetric] c [symmetric]] g Some x c show ?thesis
        by (subst handle_ascii_client_connect_fp.simps) simp
    next
      case (Some err)
      with g \<open>extract_to_terminator conn LF = Some x\<close> x c show ?thesis
        by (subst handle_ascii_client_connect_fp.simps) simp
    qed
  qed
qed

section \<open>The binary parser: auxiliary facts\<close>

lemma u16_at_take: "off + 2 \<le> n \<Longrightarrow> u16_at (take n cmd) off = u16_at cmd off"
  by (simp add: u16_at_def drop_take min_def)

lemma double_at_take: "off + 8 \<le> n \<Longrightarrow> double_at (take n cmd) off = double_at cmd off"
  by (simp add: double_at_fp_def drop_take min_def)

lemma handle_binary_set_None_iff:
  "snd (snd (handle_binary_set cfg conn gm header)) = None \<longleftrightarrow> gm = None"
  by (simp add: handle_binary_set_fp_def Let_def split: option.splits prod.splits)

lemma binary_short:
  "length conn < MIN_BINARY_HEADER_SIZE \<Longrightarrow> handle_binary_client_connect cfg (conn, gm) = (0, conn, gm)"
  by (subst handle_binary_client_connect_fp.simps) (simp add: peek_client_bytes_def)

lemma binary_bad_magic:
  "MIN_BINARY_HEADER_SIZE \<le> length conn \<Longrightarrow> conn ! 0 \<noteq> BINARY_MAGIC_BYTE \<Longrightarrow>
   handle_binary_client_connect cfg (conn, gm) = (- 1, conn, gm)"
  by (subst handle_binary_client_connect_fp.simps) (simp add: peek_client_bytes_def)

lemma binary_unknown_type:
  "MIN_BINARY_HEADER_SIZE \<le> length conn \<Longrightarrow> conn ! 0 = BINARY_MAGIC_BYTE \<Longrightarrow>
   bin_type (conn ! 1) = UNKNOWN \<Longrightarrow>
   handle_binary_client_connect cfg (conn, gm) = (- 1, conn, gm)"
  by (subst handle_binary_client_connect_fp.simps) (simp add: peek_client_bytes_def)

lemma binary_value_step:
  assumes "MIN_BINARY_HEADER_SIZE \<le> length conn" and "conn ! 0 = BINARY_MAGIC_BYTE"
    and "bin_type (conn ! 1) \<noteq> SET" and "bin_type (conn ! 1) \<noteq> UNKNOWN"
  shows "handle_binary_client_connect cfg (conn, gm) =
     (let key_len = u16_at conn 2 in
      if length conn < MAX_BINARY_HEADER_SIZE + key_len then (0, conn, gm)
      else if conn ! (MAX_BINARY_HEADER_SIZE + key_len - 1) \<noteq> NUL
        then (- 1, drop (MAX_BINARY_HEADER_SIZE + key_len) conn, gm)
      else handle_binary_client_connect cfg
             (drop (MAX_BINARY_HEADER_SIZE + key_len) conn,
              metrics_add_sample (incr_input_counter cfg gm) (bin_type (conn ! 1))
                (c_str (drop MAX_BINARY_HEADER_SIZE conn)) (double_at conn 4)))"
  using assms
  by (subst handle_binary_client_connect_fp.simps)
     (simp add: peek_client_bytes_def read_client_bytes_def Let_def u16_at_take double_at_take
        c_str_at_def)

lemma binary_set_step:
  assumes "MIN_BINARY_HEADER_SIZE \<le> length conn" and "conn ! 0 = BINARY_MAGIC_BYTE"
    and "bin_type (conn ! 1) = SET"
  shows "handle_binary_client_connect cfg (conn, gm) =
     (case handle_binary_set cfg conn gm (take MIN_BINARY_HEADER_SIZE conn) of
        (r, conn', gm') \<Rightarrow>
          if r = - 1 then (- 1, conn', gm')
          else if r = - 2 then (0, conn', gm')
          else handle_binary_client_connect cfg (conn', gm'))"
  using assms
  by (subst handle_binary_client_connect_fp.simps) (simp add: peek_client_bytes_def)

text \<open>A key whose terminator lies inside the command ends there.\<close>

lemma c_str_take:
  assumes "i < length xs" and "xs ! i = NUL"
  shows "c_str (take (Suc i) xs) = c_str xs"
proof -
  have "xs = take i xs @ NUL # drop (Suc i) xs"
    using assms by (metis id_take_nth_drop)
  then have x: "c_str xs = c_str (take i xs @ NUL # drop (Suc i) xs)" by simp
  have "take (Suc i) xs = take i xs @ [NUL]"
    using assms by (simp add: take_Suc_conv_app_nth)
  then show ?thesis
    unfolding x by (auto simp: c_str_def takeWhile_append)
qed

text \<open>
  A command with the header of a counter, timer, gauge or key/value record and a
  declared key of at least one byte: the three outcomes of the binary parser.
\<close>

lemma binary_keyed_record:
  assumes "MIN_BINARY_HEADER_SIZE \<le> length conn" and "conn ! 0 = BINARY_MAGIC_BYTE"
    and "bin_type (conn ! 1) \<noteq> SET" and "bin_type (conn ! 1) \<noteq> UNKNOWN"
    and "1 \<le> u16_at conn 2"
  shows "handle_binary_client_connect cfg (conn, gm) =
     (let key_len = u16_at conn 2; key = take key_len (drop 12 conn) in
      if length conn < 4 + 8 + key_len then (0, conn, gm)
      else if last key \<noteq> NUL then (- 1, drop (4 + 8 + key_len) conn, gm)
      else handle_binary_client_connect cfg
             (drop (4 + 8 + key_len) conn,
              metrics_add_sample (incr_input_counter cfg gm) (bin_type (conn ! 1)) (c_str key)
                (double_of_bits (le_nat (take 8 (drop 4 conn))))))"
proof (cases "length conn < 12 + u16_at conn 2")
  case True
  with assms show ?thesis by (simp add: binary_value_step Let_def)
next
  case False
  define k where "k = u16_at conn 2 - 1"
  have k: "u16_at conn 2 = Suc k" using assms(5) by (simp add: k_def)
  have len: "length (take (Suc k) (drop 12 conn)) = Suc k" using False by (simp add: k)
  then have "last (take (Suc k) (drop 12 conn)) = take (Suc k) (drop 12 conn) ! k"
    by (metis last_conv_nth diff_Suc_1 list.size(3) nat.distinct(1))
  also have "\<dots> = conn ! (12 + k)" using False by (simp add: k)
  finally have l: "last (take (Suc k) (drop 12 conn)) = conn ! (12 + k)" .
  have c: "c_str (take (Suc k) (drop 12 conn)) = c_str (drop 12 conn)"
    if "conn ! (12 + k) = NUL"
    using that False by (intro c_str_take) (simp_all add: k)
  from assms False show ?thesis
    by (simp add: binary_value_step Let_def k l c double_at_fp_def)
qed

lemma handle_binary_set_conn:
  "handle_binary_set cfg conn gm header = (r, conn', gm') \<Longrightarrow> r \<noteq> - 2 \<Longrightarrow>
   length conn' < length conn"
  by (auto simp: handle_binary_set_fp_def read_client_bytes_def Let_def split: if_splits)

lemma handle_binary_client_connect_None_iff:
  "snd (snd (handle_binary_client_connect cfg (conn, gm))) = None \<longleftrightarrow> gm = None"
proof (induction "length conn" arbitrary: conn gm rule: less_induct)
  case less
  consider (short) "length conn < MIN_BINARY_HEADER_SIZE"
    | (magic) "MIN_BINARY_HEADER_SIZE \<le> length conn" "conn ! 0 \<noteq> BINARY_MAGIC_BYTE"
    | (unknown) "MIN_BINARY_HEADER_SIZE \<le> length conn" "conn ! 0 = BINARY_MAGIC_BYTE"
        "bin_type (conn ! 1) = UNKNOWN"
    | (set) "MIN_BINARY_HEADER_SIZE \<le> length conn" "conn ! 0 = BINARY_MAGIC_BYTE"
        "bin_type (conn ! 1) = SET"
    | (val) "MIN_BINARY_HEADER_SIZE \<le> length conn" "conn ! 0 = BINARY_MAGIC_BYTE"
        "bin_type (conn ! 1) \<noteq> SET" "bin_type (conn ! 1) \<noteq> UNKNOWN"
    by fastforce
  then show ?case
  proof cases
    case short
    then show ?thesis by (simp add: binary_short)
  next
    case magic
    then show ?thesis by (simp add: binary_bad_magic)
  next
    case unknown
    then show ?thesis by (simp add: binary_unknown_type)
  next
    case set
    obtain r conn' gm' where h:
      "handle_binary_set cfg conn gm (take MIN_BINARY_HEADER_SIZE conn) = (r, conn', gm')"
      by (cases "handle_binary_set cfg conn gm (take MIN_BINARY_HEADER_SIZE conn)")
    have g: "gm' = None \<longleftrightarrow> gm = None"
      using handle_binary_set_None_iff [of cfg conn gm "take MIN_BINARY_HEADER_SIZE conn"]
      by (simp add: h)
    show ?thesis
    proof (cases "r = - 1 \<or> r = - 2")
      case True
      with g h set show ?thesis by (auto simp: binary_set_step)
    next
      case False
      then have "length conn' < length conn"
        using handle_binary_set_conn [OF h] by simp
      from less [OF this, of gm'] g h set False show ?thesis
        by (simp add: binary_set_step)
    qed
  next
    case val
    show ?thesis
    proof (cases "length conn < MAX_BINARY_HEADER_SIZE + u16_at conn 2
        \<or> conn ! (MAX_BINARY_HEADER_SIZE + u16_at conn 2 - 1) \<noteq> NUL")
      case True
      with val show ?thesis by (auto simp: binary_value_step Let_def)
    next
      case False
      then have "length (drop (MAX_BINARY_HEADER_SIZE + u16_at conn 2) conn) < length conn"
        using val(1) by (simp del: One_nat_def) linarith
      from less [OF this] val False show ?thesis
        by (simp add: binary_value_step Let_def)
    qed
  qed
qed

lemma handle_client_connect_None_iff:
  "snd (snd (handle_client_connect cfg h)) = None \<longleftrightarrow> snd h = None"
  using handle_binary_client_connect_None_iff [of cfg "fst h" "snd h"]
    handle_ascii_client_connect_None_iff [of exact cfg h]
  by (simp add: handle_client_connect_fp_def split: option.splits)

lemma ingest_None_iff [simp]: "ingest cfg conn gm = None \<longleftrightarrow> gm = None"
  using handle_client_connect_None_iff [of cfg "(conn, gm)"] by (simp add: ingest_def)

section \<open>The flush controller: auxiliary facts\<close>

lemma inv_init: "inv (init_conn_handler cfg)"
  by (simp add: inv_def init_conn_handler_def)

lemma the_metrics_store:
  "(gm = None \<longleftrightarrow> the_metrics d = None) \<Longrightarrow> the_metrics (store_metrics d gm) = gm"
  by (auto simp: the_metrics_def store_metrics_def split: option.splits)

lemma store_metrics_fields [simp]:
  "threads (store_metrics d gm) = threads d"
  "brk (store_metrics d gm) = brk d"
  "GLOBAL_METRICS (store_metrics d gm) = GLOBAL_METRICS d"
  "GLOBAL_CONFIG (store_metrics d gm) = GLOBAL_CONFIG d"
  by (auto simp: store_metrics_def split: option.splits)

lemma store_metrics_heap:
  "GLOBAL_METRICS d \<noteq> Some p \<Longrightarrow> heap (store_metrics d gm) p = heap d p"
  by (auto simp: store_metrics_def split: option.splits)

lemma data_step:
  "snd (snd (on_client_data d conn)) =
     store_metrics d (ingest (GLOBAL_CONFIG d) conn (the_metrics d))"
  by (simp add: on_client_data_def ingest_def split: prod.splits)

lemma step_config [simp]: "GLOBAL_CONFIG (step d ev) = GLOBAL_CONFIG d"
  by (cases ev) (simp_all add: data_step flush_interval_trigger_def final_flush_def Let_def)

lemma inv_step: "inv d \<Longrightarrow> inv (step d ev)"
  by (cases ev)
     (auto simp: data_step inv_def flush_interval_trigger_def final_flush_def Let_def
        less_Suc_eq)

lemma flushed_step:
  assumes "inv d" and "w \<in> set (threads d)"
  shows "flushed (step d ev) w = flushed d w"
proof (cases "thread_arg w")
  case None
  then show ?thesis by (simp add: flushed_def)
next
  case (Some p)
  with assms have p: "p < brk d" "GLOBAL_METRICS d \<noteq> Some p"
    by (auto simp: inv_def)
  then have "heap (step d ev) p = heap d p"
    by (cases ev)
       (simp_all add: data_step store_metrics_heap flush_interval_trigger_def final_flush_def
          Let_def)
  then show ?thesis by (simp add: flushed_def Some)
qed

lemma the_metrics_data:
  "the_metrics (step d (Data conn)) = ingest (GLOBAL_CONFIG d) conn (the_metrics d)"
  by (simp add: data_step the_metrics_store)

lemma rotate_step:
  assumes "inv d"
  shows "threads (step d Rotate) = threads d @ [\<lparr>thread_arg = GLOBAL_METRICS d, joined = False\<rparr>]"
    and "flushed (step d Rotate) \<lparr>thread_arg = GLOBAL_METRICS d, joined = False\<rparr> = the_metrics d"
    and "the_metrics (step d Rotate) = Some init_metrics"
  using assms
  by (auto simp: flush_interval_trigger_def Let_def flushed_def the_metrics_def inv_def
        split: option.splits)

lemma final_step:
  shows "threads (step d Final) = threads d @ [\<lparr>thread_arg = GLOBAL_METRICS d, joined = True\<rparr>]"
    and "flushed (step d Final) \<lparr>thread_arg = GLOBAL_METRICS d, joined = True\<rparr> = the_metrics d"
    and "the_metrics (step d Final) = None"
  by (auto simp: final_flush_def Let_def flushed_def the_metrics_def split: option.splits)

lemma run_refines_epochs:
  assumes "inv d"
  shows "map (flushed (run d evs)) (threads (run d evs)) =
           map (flushed d) (threads d) @ fst (epochs (GLOBAL_CONFIG d) (the_metrics d) evs)
         \<and> the_metrics (run d evs) = snd (epochs (GLOBAL_CONFIG d) (the_metrics d) evs)"
  using assms
proof (induction evs arbitrary: d)
  case Nil
  show ?case by simp
next
  case (Cons ev evs)
  have i: "inv (step d ev)" using Cons.prems by (rule inv_step)
  have old: "map (flushed (step d ev)) (threads d) = map (flushed d) (threads d)"
    using Cons.prems by (simp add: flushed_step)
  note IH = Cons.IH [OF i]
  show ?case
  proof (cases ev)
    case (Data conn)
    have "threads (step d ev) = threads d" by (simp add: Data data_step)
    with IH old the_metrics_data [of d conn] show ?thesis
      by (simp add: Data del: step.simps)
  next
    case Rotate
    with IH old rotate_step [OF Cons.prems] show ?thesis
      by (simp add: split_beta del: step.simps)
  next
    case Final
    with IH old final_step [of d] show ?thesis
      by (simp add: split_beta del: step.simps)
  qed
qed

section \<open>The binary serializer: auxiliary facts\<close>

lemma length_le_bytes [simp]: "length (le_bytes n x) = n"
  by (induction n arbitrary: x) auto

lemma le_nat_le_bytes: "le_nat (le_bytes n x) = x mod 256 ^ n"
proof (induction n arbitrary: x)
  case 0
  show ?case by simp
next
  case (Suc n)
  have "x mod 256 + 256 * (x div 256 mod 256 ^ n) = x mod (256 * 256 ^ n)"
    by (simp add: mod_mult2_eq)
  with Suc show ?case by simp
qed

lemma word64_le_round: "word_of_nat (le_nat (le_bytes 8 (unat w))) = (w :: 64 word)"
proof -
  have "unat w < 256 ^ 8"
    using unsigned_less [of w, where ?'a = nat] by simp
  then show ?thesis by (simp add: le_nat_le_bytes)
qed

lemma strlen_c_str [simp]: "length (c_str name) = strlen name"
  by (simp add: strlen_def)

lemma writer_ok:
  assumes "strlen name + 1 < 2 ^ 16"
  shows "stream_bin_writer pipe ts ty vt val name =
           (0, pipe @ le_bytes 8 (unat ts) @ [ty] @ [vt] @ le_bytes 2 (strlen name + 1)
                 @ le_bytes 8 (unat val) @ c_str name @ [NUL])"
proof -
  have k: "unat (word_of_nat (strlen name + 1) :: 16 word) = strlen name + 1"
    using assms by (simp add: unat_of_nat take_bit_nat_eq_self del: of_nat_Suc of_nat_add)
  show ?thesis
    unfolding stream_bin_writer_def Let_def k
    by (simp add: fwrite_def)
qed

lemma read_binary_out_record:
  assumes "length hdr = 20" and "le_nat (take 2 (drop 10 hdr)) = length key"
  shows "read_binary_out (hdr @ key @ rest) =
     Some (\<lparr>out_timestamp = word_of_nat (le_nat (take 8 hdr)), out_type = hdr ! 8,
            out_value_type = hdr ! 9, out_key_len = length key,
            out_val = word_of_nat (le_nat (take 8 (drop 12 hdr))), out_key = key\<rparr>, rest)"
  using assms by (simp add: read_binary_out_def Let_def nth_append)

lemma read_writer:
  assumes "strlen name + 1 < 2 ^ 16"
  shows "read_binary_out (snd (stream_bin_writer [] ts ty vt val name) @ rest) =
     Some (\<lparr>out_timestamp = ts, out_type = ty, out_value_type = vt,
            out_key_len = strlen name + 1, out_val = val, out_key = c_str name @ [NUL]\<rparr>, rest)"
proof -
  define hdr where "hdr = le_bytes 8 (unat ts) @ [ty] @ [vt] @ le_bytes 2 (strlen name + 1)
                 @ le_bytes 8 (unat val)"
  have k: "le_nat (le_bytes 2 (Suc (strlen name))) = Suc (strlen name)"
    using assms by (simp add: le_nat_le_bytes)
  have len: "length hdr = 20" by (simp add: hdr_def)
  have kl: "le_nat (take 2 (drop 10 hdr)) = length (c_str name @ [NUL])"
    by (simp add: hdr_def k)
  have f: "take 8 hdr = le_bytes 8 (unat ts)" "hdr ! 8 = ty" "hdr ! 9 = vt"
    "take 8 (drop 12 hdr) = le_bytes 8 (unat val)"
    by (simp_all add: hdr_def nth_append)
  have "snd (stream_bin_writer [] ts ty vt val name) @ rest = hdr @ (c_str name @ [NUL]) @ rest"
    by (simp add: writer_ok [OF assms] hdr_def)
  then show ?thesis
    using read_binary_out_record [OF len kl, of rest]
    by (simp add: f word64_le_round)
qed

section \<open>Driver and run: auxiliary facts\<close>

lemma client_ascii:
  "deref conn \<noteq> BINARY_MAGIC_BYTE \<Longrightarrow>
   handle_client_connect cfg (conn, gm) = handle_ascii_client_connect cfg (conn, gm)"
  by (cases conn)
     (simp_all add: handle_client_connect_fp_def peek_client_byte_def deref_def
        handle_ascii_client_connect_fp.simps extract_to_terminator_def)

lemma run_data_rotate:
  "flushed (run (init_conn_handler cfg) [Data conn, Rotate])
     (threads (run (init_conn_handler cfg) [Data conn, Rotate]) ! 0) =
   ingest cfg conn (Some init_metrics)"
proof -
  have i: "inv (init_conn_handler cfg)" by (rule inv_init)
  have t: "the_metrics (init_conn_handler cfg) = Some init_metrics"
    "threads (init_conn_handler cfg) = []" "GLOBAL_CONFIG (init_conn_handler cfg) = cfg"
    by (simp_all add: the_metrics_def init_conn_handler_def)
  from run_refines_epochs [OF i, of "[Data conn, Rotate]"] show ?thesis
    by (simp add: t del: step.simps run.simps) (metis nth_Cons_0 nth_map length_map length_Cons zero_less_Suc list.size(3))
qed

lemma epochs_data:
  "epochs cfg cur (map Data conns @ evs) = epochs cfg (fold (ingest cfg) conns cur) evs"
  by (induction conns arbitrary: cur) simp_all

lemma epochs_append:
  "epochs cfg cur (evs @ evs') =
     (fst (epochs cfg cur evs) @ fst (epochs cfg (snd (epochs cfg cur evs)) evs'),
      snd (epochs cfg (snd (epochs cfg cur evs)) evs'))"
proof (induction evs arbitrary: cur)
  case Nil
  show ?case by simp
next
  case (Cons ev evs)
  show ?case by (cases ev) (simp_all add: Cons split_beta)
qed

lemma run_init_epochs:
  "map (flushed (run (init_conn_handler cfg) evs)) (threads (run (init_conn_handler cfg) evs)) =
     fst (epochs cfg (Some init_metrics) evs) \<and>
   the_metrics (run (init_conn_handler cfg) evs) = snd (epochs cfg (Some init_metrics) evs)"
proof -
  have t: "the_metrics (init_conn_handler cfg) = Some init_metrics"
    "threads (init_conn_handler cfg) = []" "GLOBAL_CONFIG (init_conn_handler cfg) = cfg"
    by (simp_all add: the_metrics_def init_conn_handler_def)
  from run_refines_epochs [OF inv_init, of cfg evs] show ?thesis
    by (simp add: t)
qed

lemma on_client_data_null:
  assumes "GLOBAL_METRICS d = None"
  shows "snd (snd (on_client_data d conn)) = d"
  using assms by (simp add: data_step store_metrics_def)

lemma run_data_null:
  assumes "GLOBAL_METRICS d = None"
  shows "run d (map Data conns) = d"
  using assms by (induction conns) (simp_all add: on_client_data_null)

section \<open>Evaluation on concrete inputs\<close>

lemmas ascii_eval =
  handle_ascii_client_connect_fp.simps extract_to_terminator_def handle_ascii_command_fp_def
  buffer_after_terminator_def convert_type_def deref_def c_str_def incr_input_counter_fp_def
  str2double_fp_def is_digit_def example_config_def

lemmas registry_eval =
  metrics_add_sample_fp_def metrics_set_update_def init_metrics_def counter_add_sample_fp_def
  init_counter_fp_def counter_sum_def counter_count_def reported_def

lemmas binary_eval =
  handle_binary_client_connect_fp.simps peek_client_bytes_def read_client_bytes_def bin_type_def
  u16_at_def double_at_fp_def c_str_at_def c_str_def incr_input_counter_fp_def example_config_def
  Let_def

lemma double_of_bits_one: "double_of_bits 0x3FF0000000000000 = 1"
  by (simp add: double_of_bits_def)

lemma double_of_bits_42: "double_of_bits 0x4045000000000000 = 42"
  by (simp add: double_of_bits_def)

lemma str2double_simps:
  "str2double ''1'' = (1, [])" "str2double ''0.5'' = (1 / 2, [])"
  by (simp_all add: str2double_fp_def deref_def is_digit_def)

section \<open>Counter additivity\<close>

text \<open>
  C1, as the spec states it, fails: the reported sum and count of a counter are not
  always the sum of the \<open>v / r\<close> and the number of its samples. The input counter is
  a counter of the same registry, so with \<^verbatim>\<open>input_counter = "in"\<close> the single sample
  \<^verbatim>\<open>in:5|c\<close> leaves the counter \<^verbatim>\<open>in\<close> with sum 6 and count 2, not with sum 5 and
  count 1; rotating hands this registry to the flush thread.
\<close>

theorem counter_named_as_input_counter:
  "counter_line ''in'' (''5'', None) = ''in:5|c'' \<and>
   counter_sample_ok (''5'', None) \<and>
   input_counter counting_config = Some ''in'' \<and>
   handle_ascii_client_connect counting_config (''in:5|c'' @ [LF], Some init_metrics) =
     (0, [], metrics_add_sample (metrics_add_sample (Some init_metrics) COUNTER ''in'' 1)
               COUNTER ''in'' 5) \<and>
   reported
     (flushed
        (run (init_conn_handler counting_config) [Data (''in:5|c'' @ [LF]), Rotate])
        (threads (run (init_conn_handler counting_config) [Data (''in:5|c'' @ [LF]), Rotate]) ! 0))
     ''in'' = Some (6, 2) \<and>
   reported
     (flushed
        (run (init_conn_handler counting_config) [Data (''in:5|c'' @ [LF]), Rotate])
        (threads (run (init_conn_handler counting_config) [Data (''in:5|c'' @ [LF]), Rotate]) ! 0))
     ''in'' \<noteq> Some (5, 1)"
proof -
  have n: "numeric ''5''"
    by (simp add: numeric_iff deref_def is_digit_def)
  have 1: "counter_line ''in'' (''5'', None) = ''in:5|c''"
    by (simp add: counter_line_def)
  have 2: "counter_sample_ok (''5'', None)"
    by (simp add: counter_sample_ok_def n)
  have 3: "input_counter counting_config = Some ''in''"
    by (simp add: counting_config_def)
  have 4: "handle_ascii_client_connect counting_config (''in:5|c'' @ [LF], Some init_metrics) =
     (0, [], metrics_add_sample (metrics_add_sample (Some init_metrics) COUNTER ''in'' 1)
               COUNTER ''in'' 5)"
    by (simp add: ascii_eval counting_config_def)
  have 5: "handle_client_connect counting_config (''in:5|c'' @ [LF], Some init_metrics) =
     handle_ascii_client_connect counting_config (''in:5|c'' @ [LF], Some init_metrics)"
    by (simp add: handle_client_connect_fp_def peek_client_byte_def)
  have 6: "reported
     (flushed
        (run (init_conn_handler counting_config) [Data (''in:5|c'' @ [LF]), Rotate])
        (threads (run (init_conn_handler counting_config) [Data (''in:5|c'' @ [LF]), Rotate]) ! 0))
     ''in'' = Some (6, 2)"
    unfolding run_data_rotate ingest_def 5 4
    by (simp add: registry_eval)
  from 1 2 3 4 6 show ?thesis by simp
qed

text \<open>
  C1, amended. The text parser handles \<open>n \<ge> 1\<close> counter lines \<^verbatim>\<open>name:v|c\<close> or
  \<^verbatim>\<open>name:v|c@r\<close> for one name on a fresh registry, the name without \<open>:\<close> and newline,
  every \<open>v\<close> and \<open>r\<close> a number as \<^verbatim>\<open>str2double\<close> reads it. It accepts them all. Each
  sample is ingested as \<open>v * (1 / r)\<close>, computed in the arithmetic of doubles, when its
  rate is present and lies in \<open>(0, 1]\<close>, and as \<open>v\<close> when the rate is absent or outside
  that range. If the name is not the configured input counter, the counter reports the
  count \<open>n\<close> and the sum that results from adding these values to \<open>0.0\<close> one after
  another, in the order of arrival and in the arithmetic of doubles. If the name is the
  configured input counter, every line adds the sample \<open>1\<close> before its own, and the
  count is \<open>2n\<close>. This holds for every arithmetic. In exact arithmetic the sum is the
  sum of the \<open>v / r\<close>; the witness is the scenario \<^verbatim>\<open>a:1|c\na:2|c\na:3|c@0.5\n\<close>, where
  all operations are exact: the values are 1, 2 and 6, the sum is 9 and the count 3,
  also in the registry that a rotation hands to the flush thread.
\<close>

theorem counter_running_sum:
  assumes "CHR '':'' \<notin> set name" and "LF \<notin> set name"
    and "\<forall>s \<in> set samples. counter_sample_ok s" and "samples \<noteq> []"
  shows "(let r = handle_ascii_client_connect_fp F cfg
                    (concat (map (\<lambda>s. counter_line name s @ [LF]) samples), Some init_metrics);
              vs = (if input_counter cfg = Some (c_str name)
                    then concat (map (\<lambda>s. [fp_of_int F 1, sample_value_fp F s]) samples)
                    else map (sample_value_fp F) samples)
          in fst r = 0 \<and> fst (snd r) = [] \<and>
             reported (snd (snd r)) (c_str name) = Some (running_sum F vs, length vs))"
proof -
  let ?f = "sample_value_fp F"
  let ?vs = "if input_counter cfg = Some (c_str name)
             then concat (map (\<lambda>s. [fp_of_int F 1, ?f s]) samples) else map ?f samples"
  have h: "handle_ascii_client_connect_fp F cfg
             (concat (map (\<lambda>s. counter_line name s @ [LF]) samples), Some init_metrics) =
           (0, [], fold (\<lambda>s. add_counter_sample_fp F cfg (c_str name) (?f s)) samples
                     (Some init_metrics))"
    using assms(1-3) by (rule counter_lines_loop)
  obtain m' where m': "fold (\<lambda>s. add_counter_sample_fp F cfg (c_str name) (?f s)) samples
        (Some init_metrics) = Some m'"
    and e: "m' (c_str name) = fold (acc_add_sample_fp F COUNTER) ?vs (init_metrics (c_str name))"
    using fold_counter_samples_entry [of F cfg "c_str name" ?f samples init_metrics] by blast
  have "?vs \<noteq> []" using assms(4) by (cases samples) auto
  then obtain c' where "fold (acc_add_sample_fp F COUNTER) ?vs None = Some (CounterAcc c')"
    and "cnt_sum c' = running_sum F ?vs" and "cnt_count c' = length ?vs"
    using fold_counter_entry_fresh [of ?vs F] by blast
  then have "reported (Some m') (c_str name) = Some (running_sum F ?vs, length ?vs)"
    by (simp add: reported_def e init_metrics_def counter_sum_def counter_count_def)
  with h m' show ?thesis by (simp add: Let_def)
qed

theorem counter_running_sum_witness:
  "CHR '':'' \<notin> set ''a'' \<and> LF \<notin> set ''a'' \<and>
   counter_sample_ok (''1'', None) \<and> counter_sample_ok (''2'', None) \<and>
   counter_sample_ok (''3'', Some ''0.5'') \<and>
   input_counter example_config \<noteq> Some (c_str ''a'') \<and>
   concat (map (\<lambda>s. counter_line ''a'' s @ [LF]) [(''1'', None), (''2'', None), (''3'', Some ''0.5'')])
     = ''a:1|c'' @ [LF] @ ''a:2|c'' @ [LF] @ ''a:3|c@0.5'' @ [LF] \<and>
   map (sample_value_fp exact) [(''1'', None), (''2'', None), (''3'', Some ''0.5'')] = [1, 2, 6] \<and>
   running_sum exact [1, 2, 6] = 9 \<and>
   fst (handle_ascii_client_connect example_config
          (''a:1|c'' @ [LF] @ ''a:2|c'' @ [LF] @ ''a:3|c@0.5'' @ [LF], Some init_metrics)) = 0 \<and>
   fst (snd (handle_ascii_client_connect example_config
          (''a:1|c'' @ [LF] @ ''a:2|c'' @ [LF] @ ''a:3|c@0.5'' @ [LF], Some init_metrics))) = [] \<and>
   reported
     (snd (snd (handle_ascii_client_connect example_config
          (''a:1|c'' @ [LF] @ ''a:2|c'' @ [LF] @ ''a:3|c@0.5'' @ [LF], Some init_metrics))))
     ''a'' = Some (9, 3) \<and>
   reported
     (flushed
        (run (init_conn_handler example_config)
           [Data (''a:1|c'' @ [LF] @ ''a:2|c'' @ [LF] @ ''a:3|c@0.5'' @ [LF]), Rotate])
        (threads
           (run (init_conn_handler example_config)
              [Data (''a:1|c'' @ [LF] @ ''a:2|c'' @ [LF] @ ''a:3|c@0.5'' @ [LF]), Rotate]) ! 0))
     ''a'' = Some (9, 3)"
proof -
  let ?samples = "[(''1'', None), (''2'', None), (''3'', Some ''0.5'')]"
  let ?conn = "''a:1|c'' @ [LF] @ ''a:2|c'' @ [LF] @ ''a:3|c@0.5'' @ [LF]"
  have n: "numeric ''1''" "numeric ''2''" "numeric ''3''" "numeric ''0.5''"
    by (simp_all add: numeric_iff deref_def is_digit_def)
  have ok: "\<forall>s \<in> set ?samples. counter_sample_ok s"
    by (simp add: counter_sample_ok_def n)
  have ok': "counter_sample_ok (''1'', None)" "counter_sample_ok (''2'', None)"
    "counter_sample_ok (''3'', Some ''0.5'')"
    using ok by simp_all
  have v: "map (sample_value_fp exact) ?samples = [1, 2, 6]"
    by (simp add: sample_value_fp_def str2double_fp_def deref_def is_digit_def)
  have s: "running_sum exact [1, 2, 6] = 9"
    by (simp add: running_sum_def)
  have k: "c_str ''a'' = ''a''" by (simp add: c_str_def)
  have c: "concat (map (\<lambda>s. counter_line ''a'' s @ [LF]) ?samples) = ?conn"
    by (simp add: counter_line_def)
  have h: "CHR '':'' \<notin> set ''a''" "LF \<notin> set ''a''"
    "input_counter example_config \<noteq> Some (c_str ''a'')"
    by (simp_all add: example_config_def)
  have "?samples \<noteq> []" by simp
  note r = counter_running_sum [OF h(1,2) ok this, of exact example_config,
    unfolded Let_def c k, simplified h(3) [unfolded k] if_False v s]
  have d: "handle_client_connect example_config (?conn, Some init_metrics) =
     handle_ascii_client_connect example_config (?conn, Some init_metrics)"
    by (simp add: handle_client_connect_fp_def peek_client_byte_def)
  have f: "reported
     (flushed (run (init_conn_handler example_config) [Data ?conn, Rotate])
        (threads (run (init_conn_handler example_config) [Data ?conn, Rotate]) ! 0))
     ''a'' = Some (9, 3)"
    unfolding run_data_rotate ingest_def d using r by simp
  from h ok' c v s r f show ?thesis by (intro conjI) simp_all
qed

section \<open>Gauge updates with a sign\<close>

text \<open>
  C2, as the spec states it, fails: a \<open>g\<close> record whose value starts with \<open>+\<close> is not
  ingested as a plain gauge. The case \<open>+\<close> of the inner switch falls through into the
  case \<open>-\<close>, so \<^verbatim>\<open>x:+3|g\<close> after \<^verbatim>\<open>x:5|g\<close> leaves the gauge at 8, not at 3.
\<close>

theorem gauge_plus_counterexample:
  "convert_type CHR ''g'' ''+3'' = Some (GAUGE_DELTA, ''3'') \<and>
   gauge_value
     (snd (snd (handle_ascii_client_connect example_config
        (''x:5|g'' @ [LF] @ ''x:+3|g'' @ [LF], Some init_metrics)))) ''x'' = Some 8 \<and>
   gauge_value
     (snd (snd (handle_ascii_client_connect example_config
        (''x:5|g'' @ [LF] @ ''x:+3|g'' @ [LF], Some init_metrics)))) ''x'' \<noteq> Some 3"
  by (simp add: ascii_eval registry_eval gauge_value_def)

text \<open>
  C2, amended. For a text record whose type letter is \<open>g\<close>: if the first byte of the
  value slice is \<open>+\<close>, that byte is consumed and the sample is ingested with type
  \<open>GaugeDelta\<close>; if it is \<open>-\<close>, the byte is retained and the sample is ingested with type
  \<open>GaugeDelta\<close>; otherwise the sample is a plain \<open>Gauge\<close>. In the registry a
  \<open>GaugeDelta\<close> sample is added to the stored value (starting from 0 if the name is
  absent) and a \<open>Gauge\<close> sample replaces it. The witness runs the spec's three gauge
  scenarios as well.
\<close>

theorem gauge_sign_prefix:
  assumes "CHR '':'' \<notin> set name" and "CHR ''|'' \<notin> set v"
  shows "handle_ascii_command cfg gm (name @ CHR '':'' # v @ CHR ''|'' # CHR ''g'' # t) =
     (let gm1 = incr_input_counter cfg gm;
          (type, val_str) =
            (if deref v = CHR ''+'' then (GAUGE_DELTA, tl v)
             else if deref v = CHR ''-'' then (GAUGE_DELTA, v)
             else (GAUGE, v))
      in if numeric val_str
         then (None, metrics_add_sample gm1 type (c_str name) (fst (str2double val_str)))
         else (Some Failed_value_conversion, gm1)) \<and>
     gauge_value (metrics_add_sample (Some m) GAUGE_DELTA n x) n =
       (case m n of None \<Rightarrow> Some x | Some (GaugeAcc g) \<Rightarrow> Some (g + x) | Some _ \<Rightarrow> None) \<and>
     gauge_value (metrics_add_sample (Some m) GAUGE n x) n =
       (case m n of None \<Rightarrow> Some x | Some (GaugeAcc g) \<Rightarrow> Some x | Some _ \<Rightarrow> None)"
proof -
  have "handle_ascii_command cfg gm (name @ CHR '':'' # v @ CHR ''|'' # CHR ''g'' # t) =
     (let gm1 = incr_input_counter cfg gm;
          (type, val_str) =
            (if deref v = CHR ''+'' then (GAUGE_DELTA, tl v)
             else if deref v = CHR ''-'' then (GAUGE_DELTA, v)
             else (GAUGE, v))
      in if numeric val_str
         then (None, metrics_add_sample gm1 type (c_str name) (fst (str2double val_str)))
         else (Some Failed_value_conversion, gm1))"
    using assms
    by (simp add: handle_ascii_command_fields convert_type_def deref_def numeric_def Let_def)
  moreover have "gauge_value (metrics_add_sample (Some m) GAUGE_DELTA n x) n =
       (case m n of None \<Rightarrow> Some x | Some (GaugeAcc g) \<Rightarrow> Some (g + x) | Some _ \<Rightarrow> None)"
    by (simp add: gauge_value_def metrics_add_sample_fp_def split: option.splits accumulator.splits)
  moreover have "gauge_value (metrics_add_sample (Some m) GAUGE n x) n =
       (case m n of None \<Rightarrow> Some x | Some (GaugeAcc g) \<Rightarrow> Some x | Some _ \<Rightarrow> None)"
    by (simp add: gauge_value_def metrics_add_sample_fp_def split: option.splits accumulator.splits)
  ultimately show ?thesis by (intro conjI)
qed

theorem gauge_sign_prefix_witness:
  "handle_ascii_command example_config (Some init_metrics) ''x:+3|g'' =
     (None, metrics_add_sample (Some init_metrics) GAUGE_DELTA ''x'' 3) \<and>
   handle_ascii_command example_config (Some init_metrics) ''x:-2|g'' =
     (None, metrics_add_sample (Some init_metrics) GAUGE_DELTA ''x'' (- 2)) \<and>
   handle_ascii_command example_config (Some init_metrics) ''x:7|g'' =
     (None, metrics_add_sample (Some init_metrics) GAUGE ''x'' 7) \<and>
   gauge_value
     (snd (snd (handle_ascii_client_connect example_config
        (''x:5|g'' @ [LF] @ ''x:7|g'' @ [LF] @ ''x:-2|g'' @ [LF], Some init_metrics)))) ''x'' = Some 5 \<and>
   gauge_value
     (snd (snd (handle_ascii_client_connect example_config
        (''x:5|g'' @ [LF] @ ''x:-2|g'' @ [LF] @ ''x:-2|g'' @ [LF], Some init_metrics)))) ''x'' = Some 1 \<and>
   gauge_value
     (snd (snd (handle_ascii_client_connect example_config
        (''x:+3|g'' @ [LF], Some init_metrics)))) ''x'' = Some 3"
proof -
  have h: "CHR '':'' \<notin> set ''x''" by simp
  note t = gauge_sign_prefix [OF h, where cfg = example_config and gm = "Some init_metrics"
      and t = "[]", THEN conjunct1]
  have n: "str2double ''3'' = (3, [])" "str2double ''-2'' = (- 2, [])" "str2double ''7'' = (7, [])"
    by (simp_all add: str2double_fp_def deref_def is_digit_def)
  have 1: "handle_ascii_command example_config (Some init_metrics) ''x:+3|g'' =
     (None, metrics_add_sample (Some init_metrics) GAUGE_DELTA ''x'' 3)"
    using t [of "''+3''"]
    by (simp add: deref_def numeric_def n c_str_def incr_input_counter_fp_def example_config_def)
  have 2: "handle_ascii_command example_config (Some init_metrics) ''x:-2|g'' =
     (None, metrics_add_sample (Some init_metrics) GAUGE_DELTA ''x'' (- 2))"
    using t [of "''-2''"]
    by (simp add: deref_def numeric_def n c_str_def incr_input_counter_fp_def example_config_def)
  have 3: "handle_ascii_command example_config (Some init_metrics) ''x:7|g'' =
     (None, metrics_add_sample (Some init_metrics) GAUGE ''x'' 7)"
    using t [of "''7''"]
    by (simp add: deref_def numeric_def n c_str_def incr_input_counter_fp_def example_config_def)
  have 4: "gauge_value
     (snd (snd (handle_ascii_client_connect example_config
        (''x:5|g'' @ [LF] @ ''x:7|g'' @ [LF] @ ''x:-2|g'' @ [LF], Some init_metrics)))) ''x'' = Some 5"
    by (simp add: ascii_eval registry_eval gauge_value_def)
  have 5: "gauge_value
     (snd (snd (handle_ascii_client_connect example_config
        (''x:5|g'' @ [LF] @ ''x:-2|g'' @ [LF] @ ''x:-2|g'' @ [LF], Some init_metrics)))) ''x'' = Some 1"
    by (simp add: ascii_eval registry_eval gauge_value_def)
  have 6: "gauge_value
     (snd (snd (handle_ascii_client_connect example_config
        (''x:+3|g'' @ [LF], Some init_metrics)))) ''x'' = Some 3"
    by (simp add: ascii_eval registry_eval gauge_value_def)
  from 1 2 3 4 5 6 show ?thesis by (intro conjI)
qed

section \<open>The input counter\<close>

text \<open>
  C5. With \<^verbatim>\<open>input_counter\<close> set, the text parser increments the counter after the type
  letter has been accepted and before the value is converted. A line that is then
  rejected for its value (\<^verbatim>\<open>a:x|c\<close>) or for its sample rate (\<^verbatim>\<open>a:1|c@x\<close>) has
  already been counted: the handler returns \<open>-1\<close> and the registry holds the input
  counter with count 1. An accepted line increments the counter once. The binary
  parser increments only after its last check: a command whose key is not terminated
  leaves the registry as it was.
\<close>

theorem input_counter_on_rejected_line:
  "handle_ascii_client_connect counting_config (''a:x|c'' @ [LF], Some init_metrics) =
     (- 1, [], metrics_add_sample (Some init_metrics) COUNTER ''in'' 1) \<and>
   reported (snd (snd (handle_ascii_client_connect counting_config
     (''a:x|c'' @ [LF], Some init_metrics)))) ''in'' = Some (1, 1) \<and>
   handle_ascii_client_connect counting_config (''a:1|c@x'' @ [LF], Some init_metrics) =
     (- 1, [], metrics_add_sample (Some init_metrics) COUNTER ''in'' 1) \<and>
   handle_ascii_client_connect counting_config (''a:1|c'' @ [LF], Some init_metrics) =
     (0, [], metrics_add_sample (metrics_add_sample (Some init_metrics) COUNTER ''in'' 1)
               COUNTER ''a'' 1) \<and>
   handle_binary_client_connect counting_config (counter_b_unterminated, Some init_metrics) =
     (- 1, [], Some init_metrics) \<and>
   handle_binary_client_connect counting_config (counter_b_one, Some init_metrics) =
     (0, [], metrics_add_sample (metrics_add_sample (Some init_metrics) COUNTER ''in'' 1)
               COUNTER ''b'' 1)"
  by (simp add: ascii_eval registry_eval counting_config_def binary_eval counter_b_one_def
        counter_b_unterminated_def double_of_bits_one)

section \<open>Values without a digit\<close>

text \<open>
  C8. \<^verbatim>\<open>str2double\<close> advances over a leading \<open>-\<close> (and over a \<open>.\<close>) before any
  digit is seen, and the caller rejects a value only when the end pointer has not moved.
  The value slice \<open>-\<close> contains no digit, yet the line \<^verbatim>\<open>a:-|c\<close> is accepted: the
  handler returns \<open>0\<close> and a counter sample of value 0 is ingested.
\<close>

theorem value_without_digit_accepted:
  "str2double ''-'' = (0, []) \<and> \<not> is_digit CHR ''-'' \<and>
   handle_ascii_client_connect example_config (''a:-|c'' @ [LF], Some init_metrics) =
     (0, [], metrics_add_sample (Some init_metrics) COUNTER ''a'' 0) \<and>
   reported (snd (snd (handle_ascii_client_connect example_config
     (''a:-|c'' @ [LF], Some init_metrics)))) ''a'' = Some (0, 1)"
  by (simp add: ascii_eval registry_eval)

section \<open>The type field and the sample rate\<close>

text \<open>
  C10. In a text line the metric type is determined by the first byte after the
  \<open>|\<close> that ends the value: for a type other than \<open>c\<close> the rest of the line,
  a trailing \<open>@rate\<close> included, is ignored; for \<open>c\<close> further bytes without an
  \<open>@\<close> are ignored, and the sample rate is the slice after the first \<open>@\<close> anywhere
  in the rest of the line. The witness includes \<^verbatim>\<open>a:1|cool\<close>, accepted as a counter
  sample of value 1.
\<close>

theorem type_field_first_byte:
  assumes "CHR '':'' \<notin> set name" and "CHR ''|'' \<notin> set v"
  shows
    "(c \<noteq> CHR ''c'' \<longrightarrow>
        handle_ascii_command cfg gm (name @ CHR '':'' # v @ CHR ''|'' # c # t) =
        handle_ascii_command cfg gm (name @ CHR '':'' # v @ CHR ''|'' # [c])) \<and>
     (CHR ''@'' \<notin> set t \<longrightarrow>
        handle_ascii_command cfg gm (name @ CHR '':'' # v @ CHR ''|'' # CHR ''c'' # t) =
        handle_ascii_command cfg gm (name @ CHR '':'' # v @ CHR ''|'' # ''c'')) \<and>
     (CHR ''@'' \<notin> set t \<longrightarrow>
        handle_ascii_command cfg gm
          (name @ CHR '':'' # v @ CHR ''|'' # CHR ''c'' # t @ CHR ''@'' # r) =
        (if \<not> numeric v then (Some Failed_value_conversion, incr_input_counter cfg gm)
         else if \<not> numeric r then (Some Failed_sample_rate_conversion, incr_input_counter cfg gm)
         else (None, metrics_add_sample (incr_input_counter cfg gm) COUNTER (c_str name)
                 (scaled (fst (str2double v)) (Some (fst (str2double r)))))))"
proof -
  have b: "CHR ''@'' \<notin> set t \<Longrightarrow>
      buffer_after_terminator (CHR ''c'' # t) CHR ''@'' = buffer_after_terminator ''c'' CHR ''@''"
    by (simp add: buffer_after_terminator_def memchr_notin)
  have d: "CHR ''@'' \<notin> set t \<Longrightarrow>
      buffer_after_terminator (CHR ''c'' # t @ CHR ''@'' # r) CHR ''@'' = Some (CHR ''c'' # t, r)"
    using buffer_after_terminator_first [of "CHR ''@''" "CHR ''c'' # t" r] by simp
  have s: "c \<noteq> CHR ''c'' \<Longrightarrow> fst ` set_option (convert_type c v) \<subseteq> - {COUNTER}"
    by (auto simp: convert_type_def split: if_splits)
  show ?thesis
  proof (intro conjI impI)
    assume "c \<noteq> CHR ''c''"
    with s show "handle_ascii_command cfg gm (name @ CHR '':'' # v @ CHR ''|'' # c # t) =
        handle_ascii_command cfg gm (name @ CHR '':'' # v @ CHR ''|'' # [c])"
      using assms
      by (auto simp: handle_ascii_command_fields deref_def Let_def split: option.splits)
  next
    assume "CHR ''@'' \<notin> set t"
    from b [OF this] show "handle_ascii_command cfg gm (name @ CHR '':'' # v @ CHR ''|'' # CHR ''c'' # t) =
        handle_ascii_command cfg gm (name @ CHR '':'' # v @ CHR ''|'' # ''c'')"
      using assms
      by (simp add: handle_ascii_command_fields deref_def Let_def convert_type_def)
  next
    assume "CHR ''@'' \<notin> set t"
    from d [OF this]
    show "handle_ascii_command cfg gm
          (name @ CHR '':'' # v @ CHR ''|'' # CHR ''c'' # t @ CHR ''@'' # r) =
        (if \<not> numeric v then (Some Failed_value_conversion, incr_input_counter cfg gm)
         else if \<not> numeric r then (Some Failed_sample_rate_conversion, incr_input_counter cfg gm)
         else (None, metrics_add_sample (incr_input_counter cfg gm) COUNTER (c_str name)
                 (scaled (fst (str2double v)) (Some (fst (str2double r))))))"
      using assms
      by (simp add: handle_ascii_command_fields deref_def Let_def convert_type_def numeric_def
            scaled_def divide_inverse)
  qed
qed

theorem type_field_first_byte_witness:
  "handle_ascii_command example_config (Some init_metrics) ''a:1|cool'' =
     handle_ascii_command example_config (Some init_metrics) ''a:1|c'' \<and>
   handle_ascii_command example_config (Some init_metrics) ''a:1|cool'' =
     (None, metrics_add_sample (Some init_metrics) COUNTER ''a'' 1) \<and>
   handle_ascii_command example_config (Some init_metrics) ''a:1|m@0.5'' =
     handle_ascii_command example_config (Some init_metrics) ''a:1|m'' \<and>
   handle_ascii_command example_config (Some init_metrics) ''a:1|m@0.5'' =
     (None, metrics_add_sample (Some init_metrics) TIMER ''a'' 1) \<and>
   handle_ascii_command example_config (Some init_metrics) ''a:1|cool@0.5'' =
     (None, metrics_add_sample (Some init_metrics) COUNTER ''a'' 2)"
proof -
  have h: "CHR '':'' \<notin> set ''a''" "CHR ''|'' \<notin> set ''1''" by simp_all
  note t = type_field_first_byte [OF h, where cfg = example_config and gm = "Some init_metrics"]
  have 1: "handle_ascii_command example_config (Some init_metrics) ''a:1|cool'' =
     handle_ascii_command example_config (Some init_metrics) ''a:1|c''"
    using t [where t = "''ool''"] by simp
  have 2: "handle_ascii_command example_config (Some init_metrics) ''a:1|c'' =
     (None, metrics_add_sample (Some init_metrics) COUNTER ''a'' 1)"
    by (simp add: handle_ascii_command_fp_def buffer_after_terminator_def convert_type_def
          deref_def incr_input_counter_fp_def example_config_def str2double_simps c_str_def)
  have 3: "handle_ascii_command example_config (Some init_metrics) ''a:1|m@0.5'' =
     handle_ascii_command example_config (Some init_metrics) ''a:1|m''"
    using t [where c = "CHR ''m''" and t = "''@0.5''"] by simp
  have 4: "handle_ascii_command example_config (Some init_metrics) ''a:1|m'' =
     (None, metrics_add_sample (Some init_metrics) TIMER ''a'' 1)"
    by (simp add: handle_ascii_command_fp_def buffer_after_terminator_def convert_type_def
          deref_def incr_input_counter_fp_def example_config_def str2double_simps c_str_def)
  have 5: "handle_ascii_command example_config (Some init_metrics) ''a:1|cool@0.5'' =
     (None, metrics_add_sample (Some init_metrics) COUNTER ''a'' 2)"
    using t [where t = "''ool''" and r = "''0.5''"]
    by (simp add: numeric_def str2double_simps scaled_def incr_input_counter_fp_def
          example_config_def c_str_def)
  from 1 2 3 4 5 show ?thesis by simp
qed

section \<open>The parser mode of a connection\<close>

text \<open>
  C6, as the spec states it, fails: the mode is not fixed for the lifetime of a
  connection. After the text line \<^verbatim>\<open>a:1|c\<close> has been handled, a binary command that
  arrives on the same connection is dispatched to the binary parser and ingested; the
  text parser would have waited for a newline.
\<close>

theorem mode_not_fixed_counterexample:
  "handle_client_connect example_config (''a:1|c'' @ [LF], Some init_metrics) =
     handle_ascii_client_connect example_config (''a:1|c'' @ [LF], Some init_metrics) \<and>
   handle_client_connect example_config (''a:1|c'' @ [LF], Some init_metrics) =
     (0, [], metrics_add_sample (Some init_metrics) COUNTER ''a'' 1) \<and>
   handle_client_connect example_config
     ([] @ counter_b_one, metrics_add_sample (Some init_metrics) COUNTER ''a'' 1) =
     handle_binary_client_connect example_config
       (counter_b_one, metrics_add_sample (Some init_metrics) COUNTER ''a'' 1) \<and>
   handle_client_connect example_config
     ([] @ counter_b_one, metrics_add_sample (Some init_metrics) COUNTER ''a'' 1) =
     (0, [], metrics_add_sample (metrics_add_sample (Some init_metrics) COUNTER ''a'' 1)
               COUNTER ''b'' 1) \<and>
   handle_ascii_client_connect example_config
     (counter_b_one, metrics_add_sample (Some init_metrics) COUNTER ''a'' 1) =
     (0, counter_b_one, metrics_add_sample (Some init_metrics) COUNTER ''a'' 1)"
proof -
  have 1: "handle_ascii_client_connect example_config (''a:1|c'' @ [LF], Some init_metrics) =
     (0, [], metrics_add_sample (Some init_metrics) COUNTER ''a'' 1)"
    by (simp add: ascii_eval)
  have 2: "handle_client_connect example_config (''a:1|c'' @ [LF], Some init_metrics) =
     handle_ascii_client_connect example_config (''a:1|c'' @ [LF], Some init_metrics)"
    by (simp add: handle_client_connect_fp_def peek_client_byte_def)
  have 3: "handle_binary_client_connect example_config (counter_b_one, gm) =
     (0, [], metrics_add_sample gm COUNTER ''b'' 1)" for gm
    by (simp add: counter_b_one_def binary_eval double_of_bits_one)
  have 4: "handle_client_connect example_config ([] @ counter_b_one, gm) =
     handle_binary_client_connect example_config (counter_b_one, gm)" for gm
    by (simp add: handle_client_connect_fp_def peek_client_byte_def counter_b_one_def)
  have 5: "handle_ascii_client_connect example_config (counter_b_one, gm) =
     (0, counter_b_one, gm)" for gm
    by (simp add: counter_b_one_def ascii_eval)
  show ?thesis
    unfolding 4 3 2 1 5 by simp
qed

text \<open>
  C6, amended. At every invocation the driver chooses the parser by peeking the first
  unread byte: \<open>0xAA\<close> selects the binary parser, any other value the text parser, and
  no data means return. Within one invocation the chosen parser stays in charge: the
  binary parser rejects a command that does not start with \<open>0xAA\<close>, and the text parser
  goes on with the next line as text. The choice is made anew at the next invocation.
\<close>

theorem driver_dispatch:
  "handle_client_connect cfg (conn, gm) =
     (case conn of
        [] \<Rightarrow> (0, conn, gm)
      | magic # _ \<Rightarrow>
          if magic = BINARY_MAGIC_BYTE then handle_binary_client_connect cfg (conn, gm)
          else handle_ascii_client_connect cfg (conn, gm)) \<and>
   (MIN_BINARY_HEADER_SIZE \<le> length conn \<and> conn ! 0 \<noteq> BINARY_MAGIC_BYTE \<longrightarrow>
      handle_binary_client_connect cfg (conn, gm) = (- 1, conn, gm)) \<and>
   (LF \<notin> set line \<longrightarrow>
      handle_ascii_client_connect cfg (line @ LF # conn, gm) =
        (case handle_ascii_command cfg gm line of
           (Some err, gm') \<Rightarrow> (- 1, conn, gm')
         | (None, gm') \<Rightarrow> handle_ascii_client_connect cfg (conn, gm')))"
  by (simp add: handle_client_connect_fp_def peek_client_byte_def binary_bad_magic ascii_step
        split: list.splits)

theorem driver_dispatch_witness:
  "handle_client_connect example_config (counter_b_one, Some init_metrics) =
     handle_binary_client_connect example_config (counter_b_one, Some init_metrics) \<and>
   handle_client_connect example_config (''a:1|c'' @ [LF], Some init_metrics) =
     handle_ascii_client_connect example_config (''a:1|c'' @ [LF], Some init_metrics) \<and>
   handle_binary_client_connect example_config (''a:1|c'' @ [LF], Some init_metrics) =
     (- 1, ''a:1|c'' @ [LF], Some init_metrics) \<and>
   handle_ascii_client_connect example_config (''a:1|c'' @ LF # counter_b_one, Some init_metrics) =
     handle_ascii_client_connect example_config
       (counter_b_one, metrics_add_sample (Some init_metrics) COUNTER ''a'' 1)"
proof -
  note d = driver_dispatch [where cfg = example_config and gm = "Some init_metrics"]
  have c: "handle_ascii_command example_config (Some init_metrics) ''a:1|c'' =
      (None, metrics_add_sample (Some init_metrics) COUNTER ''a'' 1)"
    by (simp add: ascii_eval)
  have 1: "handle_client_connect example_config (counter_b_one, Some init_metrics) =
     handle_binary_client_connect example_config (counter_b_one, Some init_metrics)"
    using d [of counter_b_one] by (simp add: counter_b_one_def)
  have 2: "handle_client_connect example_config (''a:1|c'' @ [LF], Some init_metrics) =
     handle_ascii_client_connect example_config (''a:1|c'' @ [LF], Some init_metrics)"
    using d [of "''a:1|c'' @ [LF]"] by simp
  have 3: "handle_binary_client_connect example_config (''a:1|c'' @ [LF], Some init_metrics) =
     (- 1, ''a:1|c'' @ [LF], Some init_metrics)"
    using d [of "''a:1|c'' @ [LF]"] by simp
  have 4: "handle_ascii_client_connect example_config (''a:1|c'' @ LF # counter_b_one, Some init_metrics) =
     handle_ascii_client_connect example_config
       (counter_b_one, metrics_add_sample (Some init_metrics) COUNTER ''a'' 1)"
    using d [of counter_b_one "''a:1|c''"] by (simp add: c)
  from 1 2 3 4 show ?thesis by (intro conjI)
qed

section \<open>Binary records that carry a value\<close>

text \<open>
  C7. A binary record that is not a set record needs exactly \<open>4 + 8 + key_len\<close>
  bytes, and its key, the last \<open>key_len\<close> bytes, must end in a NUL. For a command that
  declares \<open>key_len = 0\<close> the parser does not do this. It tests \<^verbatim>\<open>key[key_len - 1]\<close>,
  which is then the last byte of the value: the command with the value \<open>0.0\<close> raises no
  framing error although it holds no NUL-terminated key, and one sample is ingested
  whose key is read behind the twelve bytes of the command, out of the bytes of the
  command that follows (\<^verbatim>\<open>0xAA 0x02 0x02\<close>, up to the NUL of its length field), or is
  empty when nothing follows. The same command with the value \<open>1.0\<close> is rejected,
  because the last byte of that value is not 0. For commands with \<open>key_len \<ge> 1\<close> the
  parser does what the claim says (lemma \<open>binary_keyed_record\<close>).
\<close>

theorem binary_record_without_key:
  "u16_at counter_no_key_zero 2 = 0 \<and> length counter_no_key_zero = 4 + 8 + 0 \<and>
   bin_type (counter_no_key_zero ! 1) = COUNTER \<and>
   handle_binary_client_connect example_config
     (counter_no_key_zero @ counter_b_one, Some init_metrics) =
     (0, [],
      metrics_add_sample
        (metrics_add_sample (Some init_metrics) COUNTER [CHR 0xAA, CHR 0x02, CHR 0x02] 0)
        COUNTER ''b'' 1) \<and>
   handle_binary_client_connect example_config (counter_no_key_zero, Some init_metrics) =
     (0, [], metrics_add_sample (Some init_metrics) COUNTER [] 0) \<and>
   u16_at counter_no_key_one 2 = 0 \<and>
   handle_binary_client_connect example_config
     (counter_no_key_one @ counter_b_one, Some init_metrics) =
     (- 1, counter_b_one, Some init_metrics)"
proof -
  have 0: "double_of_bits 0 = 0" by (simp add: double_of_bits_def)
  have 1: "u16_at counter_no_key_zero 2 = 0" "length counter_no_key_zero = 4 + 8 + 0"
    "bin_type (counter_no_key_zero ! 1) = COUNTER" "u16_at counter_no_key_one 2 = 0"
    by (simp_all add: counter_no_key_zero_def counter_no_key_one_def u16_at_def bin_type_def)
  have 2: "handle_binary_client_connect example_config
     (counter_no_key_zero @ counter_b_one, Some init_metrics) =
     (0, [],
      metrics_add_sample
        (metrics_add_sample (Some init_metrics) COUNTER [CHR 0xAA, CHR 0x02, CHR 0x02] 0)
        COUNTER ''b'' 1)"
    by (simp add: counter_no_key_zero_def counter_b_one_def binary_eval double_of_bits_one 0)
  have 3: "handle_binary_client_connect example_config (counter_no_key_zero, Some init_metrics) =
     (0, [], metrics_add_sample (Some init_metrics) COUNTER [] 0)"
    by (simp add: counter_no_key_zero_def binary_eval 0)
  have 4: "handle_binary_client_connect example_config
     (counter_no_key_one @ counter_b_one, Some init_metrics) =
     (- 1, counter_b_one, Some init_metrics)"
    by (simp add: counter_no_key_one_def counter_b_one_def binary_eval)
  from 1 2 3 4 show ?thesis by (intro conjI)
qed

section \<open>Binary output records\<close>

text \<open>
  C9. \<^verbatim>\<open>key_len\<close> is a \<^verbatim>\<open>uint16_t\<close>, so \<^verbatim>\<open>strlen(name) + 1\<close> is truncated for a
  name of 65535 bytes or more. For a name of 65536 bytes the writer reports success and
  emits the prefix with \<open>key_len = 1\<close>, followed by the first byte of the name only:
  the record holds no terminating NUL and the name cannot be recovered from it.
\<close>

theorem long_name_record:
  "stream_bin_writer [] 100 (CHR 0x02) (CHR 0x01) 0 (replicate 65536 CHR ''a'') =
     (0, le_bytes 8 100 @ [CHR 0x02, CHR 0x01, CHR 0x01, CHR 0x00] @ le_bytes 8 0 @ ''a'') \<and>
   map_option (\<lambda>r. (out_key_len (fst r), out_key (fst r), snd r))
     (read_binary_out (snd (stream_bin_writer [] 100 (CHR 0x02) (CHR 0x01) 0
        (replicate 65536 CHR ''a'')))) = Some (1, ''a'', [])"
proof -
  define hdr where "hdr = le_bytes 8 100 @ [CHR 0x02, CHR 0x01, CHR 0x01, CHR 0x00] @ le_bytes 8 0"
  have s: "strlen (replicate 65536 CHR ''a'') = 65536"
    by (simp add: strlen_def c_str_def takeWhile_replicate)
  have c: "c_str (replicate 65536 CHR ''a'') = replicate 65536 CHR ''a''"
    by (simp add: c_str_def takeWhile_replicate)
  have k: "unat (word_of_nat (65536 + 1) :: 16 word) = 1"
    by simp
  have b: "le_bytes 2 (Suc 0) = [CHR 0x01, CHR 0x00]"
    by (simp add: numeral_2_eq_2 char_of_def bit_simps)
  have len: "length hdr = 20" by (simp add: hdr_def)
  have w: "stream_bin_writer [] 100 (CHR 0x02) (CHR 0x01) 0 (replicate 65536 CHR ''a'') =
     (0, hdr @ ''a'')"
    unfolding stream_bin_writer_def Let_def s c k
    by (simp add: fwrite_def b hdr_def)
  have kl: "le_nat (take 2 (drop 10 hdr)) = length ''a''"
    by (simp add: hdr_def)
  from read_binary_out_record [OF len kl, of "[]"] show ?thesis
    unfolding w by (simp add: hdr_def)
qed

section \<open>Epoch isolation\<close>

text \<open>
  C3. Every delivery of data is attributed to exactly one epoch. When the data \<open>xs\<close> is
  handled, the flush timer fires, the data \<open>ys\<close> is handled and the timer fires again,
  the first flush thread is started on the registry built from \<open>xs\<close> alone and the
  second on the registry built from \<open>ys\<close> alone. In general the registries handed to
  the flush threads of a run are the epochs of the run, the current registry holds what
  was delivered since the last rotation, and a registry that has been retired is not
  changed by anything that happens later. The run is sequential: a call of the driver
  and a call of the flush controller do not overlap.
\<close>

theorem epoch_isolation:
  "map (flushed (run (init_conn_handler cfg) (map Data xs @ Rotate # map Data ys @ [Rotate])))
     (threads (run (init_conn_handler cfg) (map Data xs @ Rotate # map Data ys @ [Rotate]))) =
     [fold (ingest cfg) xs (Some init_metrics), fold (ingest cfg) ys (Some init_metrics)] \<and>
   map (flushed (run (init_conn_handler cfg) evs)) (threads (run (init_conn_handler cfg) evs)) =
     fst (epochs cfg (Some init_metrics) evs) \<and>
   the_metrics (run (init_conn_handler cfg) evs) = snd (epochs cfg (Some init_metrics) evs) \<and>
   take (length (threads (run (init_conn_handler cfg) evs)))
     (map (flushed (run (init_conn_handler cfg) (evs @ evs')))
        (threads (run (init_conn_handler cfg) (evs @ evs')))) =
     map (flushed (run (init_conn_handler cfg) evs)) (threads (run (init_conn_handler cfg) evs))"
proof -
  have two: "fst (epochs cfg (Some init_metrics) (map Data xs @ Rotate # map Data ys @ [Rotate])) =
      [fold (ingest cfg) xs (Some init_metrics), fold (ingest cfg) ys (Some init_metrics)]"
    by (simp add: epochs_data split_beta)
  have a: "map (flushed (run (init_conn_handler cfg) (map Data xs @ Rotate # map Data ys @ [Rotate])))
     (threads (run (init_conn_handler cfg) (map Data xs @ Rotate # map Data ys @ [Rotate]))) =
     [fold (ingest cfg) xs (Some init_metrics), fold (ingest cfg) ys (Some init_metrics)]"
    using conjunct1 [OF run_init_epochs [of cfg "map Data xs @ Rotate # map Data ys @ [Rotate]"]]
    unfolding two .
  note b = run_init_epochs [of cfg evs]
  have len: "length (threads (run (init_conn_handler cfg) evs)) =
      length (fst (epochs cfg (Some init_metrics) evs))"
    using b by (metis length_map)
  have c: "take (length (threads (run (init_conn_handler cfg) evs)))
     (map (flushed (run (init_conn_handler cfg) (evs @ evs')))
        (threads (run (init_conn_handler cfg) (evs @ evs')))) =
     map (flushed (run (init_conn_handler cfg) evs)) (threads (run (init_conn_handler cfg) evs))"
    unfolding conjunct1 [OF run_init_epochs [of cfg "evs @ evs'"]] conjunct1 [OF b] len
    by (simp add: epochs_append)
  from a b c show ?thesis by blast
qed

theorem epoch_isolation_witness:
  "map (\<lambda>gm. reported gm ''a'')
     (map (flushed (run (init_conn_handler example_config)
             (map Data [''a:1|c'' @ [LF]] @ Rotate # map Data [''a:2|c'' @ [LF]] @ [Rotate])))
        (threads (run (init_conn_handler example_config)
             (map Data [''a:1|c'' @ [LF]] @ Rotate # map Data [''a:2|c'' @ [LF]] @ [Rotate])))) =
     [Some (1, 1), Some (2, 1)]"
proof -
  have 1: "reported (ingest example_config (''a:1|c'' @ [LF]) (Some init_metrics)) ''a'' = Some (1, 1)"
    by (simp add: ingest_def handle_client_connect_fp_def peek_client_byte_def ascii_eval
          registry_eval)
  have 2: "reported (ingest example_config (''a:2|c'' @ [LF]) (Some init_metrics)) ''a'' = Some (2, 1)"
    by (simp add: ingest_def handle_client_connect_fp_def peek_client_byte_def ascii_eval
          registry_eval)
  have "map (flushed (run (init_conn_handler example_config)
             (map Data [''a:1|c'' @ [LF]] @ Rotate # map Data [''a:2|c'' @ [LF]] @ [Rotate])))
        (threads (run (init_conn_handler example_config)
             (map Data [''a:1|c'' @ [LF]] @ Rotate # map Data [''a:2|c'' @ [LF]] @ [Rotate]))) =
     [fold (ingest example_config) [''a:1|c'' @ [LF]] (Some init_metrics),
      fold (ingest example_config) [''a:2|c'' @ [LF]] (Some init_metrics)]"
    using epoch_isolation [of example_config "[''a:1|c'' @ [LF]]" "[''a:2|c'' @ [LF]]" "[]" "[]"]
    by blast
  then show ?thesis
    using 1 2 by (simp del: run.simps)
qed

section \<open>The final flush\<close>

text \<open>
  C4, as the spec states it, fails in one point: \<^verbatim>\<open>final_flush\<close> does not perform the
  rotation of \<^verbatim>\<open>flush_interval_trigger\<close> in full. It allocates and initialises no
  registry: the store and the break are unchanged, where a rotation allocates one
  object and makes it current.
\<close>

theorem final_flush_builds_nothing:
  "brk (final_flush (init_conn_handler example_config)) = brk (init_conn_handler example_config) \<and>
   heap (final_flush (init_conn_handler example_config)) = heap (init_conn_handler example_config) \<and>
   GLOBAL_METRICS (final_flush (init_conn_handler example_config)) = None \<and>
   brk (flush_interval_trigger (init_conn_handler example_config)) =
     Suc (brk (init_conn_handler example_config)) \<and>
   the_metrics (flush_interval_trigger (init_conn_handler example_config)) = Some init_metrics \<and>
   the_metrics (final_flush (init_conn_handler example_config)) \<noteq> Some init_metrics"
  by (simp add: final_flush_def flush_interval_trigger_def init_conn_handler_def Let_def
        the_metrics_def)

text \<open>
  C4, amended. \<^verbatim>\<open>final_flush\<close> retires the current registry to a flush thread as a
  rotation does, but builds no fresh registry: it joins the thread before returning
  (a rotation detaches it), leaves the registries retired earlier untouched, and leaves
  \<^verbatim>\<open>GLOBAL_METRICS\<close> null, so that every later \<^verbatim>\<open>metrics_add_sample\<close> and
  \<^verbatim>\<open>metrics_set_update\<close>, and with them every later call of the driver, changes
  nothing.
\<close>

theorem final_flush_retires:
  "threads (final_flush d) = threads d @ [\<lparr>thread_arg = GLOBAL_METRICS d, joined = True\<rparr>] \<and>
   threads (flush_interval_trigger d) =
     threads d @ [\<lparr>thread_arg = GLOBAL_METRICS d, joined = False\<rparr>] \<and>
   flushed (final_flush d) (last (threads (final_flush d))) = the_metrics d \<and>
   map (flushed (final_flush d)) (threads d) = map (flushed d) (threads d) \<and>
   GLOBAL_METRICS (final_flush d) = None \<and>
   brk (final_flush d) = brk d \<and> heap (final_flush d) = heap d \<and>
   metrics_add_sample (the_metrics (final_flush d)) ty name v = the_metrics (final_flush d) \<and>
   metrics_set_update (the_metrics (final_flush d)) name member = the_metrics (final_flush d) \<and>
   snd (snd (handle_client_connect (GLOBAL_CONFIG d) (conn, the_metrics (final_flush d)))) =
     the_metrics (final_flush d) \<and>
   run (final_flush d) (map Data conns) = final_flush d"
proof -
  have n: "GLOBAL_METRICS (final_flush d) = None"
    by (simp add: final_flush_def Let_def)
  then have m: "the_metrics (final_flush d) = None"
    by (simp add: the_metrics_def)
  have h: "snd (snd (handle_client_connect (GLOBAL_CONFIG d) (conn, None))) = None"
    using handle_client_connect_None_iff [of "GLOBAL_CONFIG d" "(conn, None)"] by simp
  have f: "flushed (final_flush d) w = flushed d w" for w
    by (simp add: flushed_def final_flush_def Let_def split: option.splits)
  show ?thesis
    unfolding m run_data_null [OF n]
    using final_step [of d] h
    by (simp add: f n) (simp add: final_flush_def flush_interval_trigger_def Let_def)
qed

theorem final_flush_retires_witness:
  "reported
     (flushed (final_flush (snd (snd (on_client_data (init_conn_handler example_config)
                 (''a:1|c'' @ [LF])))))
        (last (threads (final_flush (snd (snd (on_client_data (init_conn_handler example_config)
                 (''a:1|c'' @ [LF])))))))) ''a'' = Some (1, 1) \<and>
   run (final_flush (init_conn_handler example_config)) (map Data [''a:1|c'' @ [LF]]) =
     final_flush (init_conn_handler example_config) \<and>
   joined (last (threads (final_flush (init_conn_handler example_config))))"
proof -
  let ?d = "snd (snd (on_client_data (init_conn_handler example_config) (''a:1|c'' @ [LF])))"
  have t: "the_metrics (init_conn_handler example_config) = Some init_metrics"
    "GLOBAL_CONFIG (init_conn_handler example_config) = example_config"
    by (simp_all add: the_metrics_def init_conn_handler_def)
  have i: "the_metrics ?d = ingest example_config (''a:1|c'' @ [LF]) (Some init_metrics)"
    using the_metrics_data [of "init_conn_handler example_config" "''a:1|c'' @ [LF]"]
    by (simp add: t)
  have r: "reported (ingest example_config (''a:1|c'' @ [LF]) (Some init_metrics)) ''a'' =
      Some (1, 1)"
    by (simp add: ingest_def handle_client_connect_fp_def peek_client_byte_def ascii_eval
          registry_eval)
  have "flushed (final_flush ?d) (last (threads (final_flush ?d))) = the_metrics ?d"
    using final_flush_retires [of ?d] by blast
  then have 1: "reported (flushed (final_flush ?d) (last (threads (final_flush ?d)))) ''a'' =
      Some (1, 1)"
    unfolding i using r by simp
  have 2: "run (final_flush (init_conn_handler example_config)) (map Data [''a:1|c'' @ [LF]]) =
     final_flush (init_conn_handler example_config)"
    using final_flush_retires [of "init_conn_handler example_config"] by blast
  have 3: "joined (last (threads (final_flush (init_conn_handler example_config))))"
    using final_flush_retires [of "init_conn_handler example_config"] by simp
  from 1 2 3 show ?thesis by (intro conjI)
qed

end
